theory Spec2Isabelle
  imports Complex_Main "HOL-Library.Log_Nat" "HOL-Library.Monad_Syntax" "HOL-Library.Sublist"
begin

section \<open>Python strings\<close>

text \<open>
  A Python \<open>str\<close> is modelled as a \<open>string\<close>; a \<open>char\<close> stands for one code point
  of the ASCII range, which is all the converter and the validator ever compare against.
\<close>

definition py_isspace :: "char \<Rightarrow> bool" where
  \<comment> \<open>\<open>str.isspace\<close> on ASCII, which is what \<open>str.strip\<close> removes: TAB, LF, VT, FF, CR, the
      separators FS, GS, RS, US, and SPACE.\<close>
  "py_isspace c = (let n = (of_char c :: nat) in (9 \<le> n \<and> n \<le> 13) \<or> (28 \<le> n \<and> n \<le> 32))"

definition lstrip :: "string \<Rightarrow> string" where
  "lstrip s = dropWhile py_isspace s"

definition rstrip :: "string \<Rightarrow> string" where
  "rstrip s = rev (dropWhile py_isspace (rev s))"

definition strip :: "string \<Rightarrow> string" where
  \<comment> \<open>\<open>s.strip()\<close>\<close>
  "strip s = rstrip (lstrip s)"

definition ljust :: "nat \<Rightarrow> string \<Rightarrow> string" where
  \<comment> \<open>\<open>s.ljust(w)\<close>: pad with spaces on the right, never shorten.\<close>
  "ljust w s = s @ replicate (w - length s) CHR '' ''"

definition zfill :: "nat \<Rightarrow> string \<Rightarrow> string" where
  \<comment> \<open>\<open>s.zfill(w)\<close>: zeros go after a leading sign character.\<close>
  "zfill w s =
     (if w \<le> length s then s
      else (case s of
              c # r \<Rightarrow> if c = CHR ''+'' \<or> c = CHR ''-''
                       then c # replicate (w - length s) CHR ''0'' @ r
                       else replicate (w - length s) CHR ''0'' @ s
            | [] \<Rightarrow> replicate w CHR ''0''))"

definition startswith :: "string \<Rightarrow> string \<Rightarrow> bool" where
  \<comment> \<open>\<open>s.startswith(p)\<close>\<close>
  "startswith s p = (take (length p) s = p)"

fun split_on :: "char \<Rightarrow> string \<Rightarrow> string list" where
  \<comment> \<open>\<open>s.split(c)\<close> for a one-character separator: always at least one piece.\<close>
  "split_on c [] = [[]]"
| "split_on c (x # xs) =
     (if x = c then [] # split_on c xs
      else (case split_on c xs of p # ps \<Rightarrow> (x # p) # ps | [] \<Rightarrow> [[x]]))"

fun join :: "string \<Rightarrow> string list \<Rightarrow> string" where
  \<comment> \<open>\<open>sep.join(xs)\<close>\<close>
  "join sep [] = []"
| "join sep [x] = x"
| "join sep (x # y # ys) = x @ sep @ join sep (y # ys)"

definition lower_char :: "char \<Rightarrow> char" where
  "lower_char c = (let n = (of_char c :: nat) in if 65 \<le> n \<and> n \<le> 90 then char_of (n + 32) else c)"

definition upper_char :: "char \<Rightarrow> char" where
  "upper_char c = (let n = (of_char c :: nat) in if 97 \<le> n \<and> n \<le> 122 then char_of (n - 32) else c)"

definition lower :: "string \<Rightarrow> string" where
  "lower s = map lower_char s"

definition upper :: "string \<Rightarrow> string" where
  "upper s = map upper_char s"

definition is_digit :: "char \<Rightarrow> bool" where
  "is_digit c = (let n = (of_char c :: nat) in 48 \<le> n \<and> n \<le> 57)"

definition digit_val :: "char \<Rightarrow> nat" where
  "digit_val c = of_char c - 48"

section \<open>Python numbers\<close>

function digits_of :: "int \<Rightarrow> string" where
  \<comment> \<open>The decimal digits of a non-negative integer.\<close>
  "digits_of n =
     (if n < 10 then [char_of (48 + nat n)]
      else digits_of (n div 10) @ [char_of (48 + nat (n mod 10))])"
  by pat_completeness auto
termination
  by (relation "measure nat") auto

declare digits_of.simps [simp del]

definition str_int :: "int \<Rightarrow> string" where
  \<comment> \<open>\<open>str(i)\<close>\<close>
  "str_int i = (if i < 0 then CHR ''-'' # digits_of (- i) else digits_of i)"

definition str_nat :: "nat \<Rightarrow> string" where
  \<comment> \<open>\<open>str(n)\<close> for a count or an index.\<close>
  "str_nat n = digits_of (int n)"

definition max_str_digits :: nat where
  \<comment> \<open>CPython's default limit on the digits of a decimal \<open>int\<close>/\<open>str\<close> conversion.\<close>
  "max_str_digits = 4300"

definition py_str_int :: "int \<Rightarrow> string option" where
  \<comment> \<open>\<open>str(i)\<close> of an unbounded \<open>int\<close>; \<open>None\<close> is the \<open>ValueError\<close> beyond the digit limit.\<close>
  "py_str_int i = (if max_str_digits < length (digits_of \<bar>i\<bar>) then None else Some (str_int i))"

definition int_of_digits :: "string \<Rightarrow> int" where
  "int_of_digits ds = foldl (\<lambda>a c. 10 * a + int (digit_val c)) 0 ds"

fun digitpart_tail :: "string \<Rightarrow> string \<times> string" where
  \<comment> \<open>\<open>(["_"] digit)*\<close>: the digits read (underscores dropped) and what is left.\<close>
  "digitpart_tail [] = ([], [])"
| "digitpart_tail [c] = (if is_digit c then ([c], []) else ([], [c]))"
| "digitpart_tail (c # d # r) =
     (if is_digit c then (case digitpart_tail (d # r) of (ds, r') \<Rightarrow> (c # ds, r'))
      else if c = CHR ''_'' \<and> is_digit d then (case digitpart_tail r of (ds, r') \<Rightarrow> (d # ds, r'))
      else ([], c # d # r))"

definition digitpart :: "string \<Rightarrow> (string \<times> string) option" where
  \<comment> \<open>\<open>digit (["_"] digit)*\<close>\<close>
  "digitpart s =
     (case s of [] \<Rightarrow> None
      | c # r \<Rightarrow> if is_digit c then (case digitpart_tail r of (ds, r') \<Rightarrow> Some (c # ds, r')) else None)"

definition take_sign :: "string \<Rightarrow> bool \<times> string" where
  \<comment> \<open>An optional sign: whether it is a minus, and the rest.\<close>
  "take_sign s =
     (case s of c # r \<Rightarrow> if c = CHR ''-'' then (True, r) else if c = CHR ''+'' then (False, r) else (False, s)
      | [] \<Rightarrow> (False, []))"

definition c_isspace :: "char \<Rightarrow> bool" where
  \<comment> \<open>The whitespace that \<open>int\<close> and \<open>float\<close> skip around an ASCII literal: TAB, LF, VT,
      FF, CR and SPACE. Unlike \<open>str.strip\<close> they keep the separators FS, GS, RS and US.\<close>
  "c_isspace c = (let n = (of_char c :: nat) in (9 \<le> n \<and> n \<le> 13) \<or> n = 32)"

definition literal_strip :: "string \<Rightarrow> string" where
  \<comment> \<open>The text of a numeric literal without the whitespace around it.\<close>
  "literal_strip s = rev (dropWhile c_isspace (rev (dropWhile c_isspace s)))"

definition py_int :: "string \<Rightarrow> int option" where
  \<comment> \<open>\<open>int(s)\<close>; \<open>None\<close> is \<open>ValueError\<close>.\<close>
  "py_int s =
     (case take_sign (literal_strip s) of (neg, r) \<Rightarrow>
        (case digitpart r of
           None \<Rightarrow> None
         | Some (ds, rest) \<Rightarrow>
             if rest \<noteq> [] \<or> max_str_digits < length ds then None
             else Some (if neg then - int_of_digits ds else int_of_digits ds)))"

subsection \<open>Floats\<close>

text \<open>
  A Python \<open>float\<close> is an IEEE 754 binary64 number: a finite value is the rational it
  denotes, and every operation rounds its exact result to the nearest double, ties to even.
\<close>

datatype pyfloat = Finite rat | PosInf | NegInf | NaN

definition round_half_even :: "rat \<Rightarrow> int" where
  "round_half_even q =
     (let f = \<lfloor>q\<rfloor>; r = q - of_int f
      in if r < 1 / 2 then f else if 1 / 2 < r then f + 1 else if even f then f else f + 1)"

definition pow2 :: "int \<Rightarrow> rat" where
  "pow2 e = (if 0 \<le> e then 2 ^ nat e else 1 / 2 ^ nat (- e))"

definition ilog2 :: "rat \<Rightarrow> int" where
  \<comment> \<open>\<open>\<lfloor>log\<^sub>2 q\<rfloor>\<close> for \<open>q > 0\<close>.\<close>
  "ilog2 q =
     (if 1 \<le> q then bitlen \<lfloor>q\<rfloor> - 1 else - bitlen (\<lceil>1 / q\<rceil> - 1))"

definition round_double :: "rat \<Rightarrow> pyfloat" where
  \<comment> \<open>The nearest double: 53 bits of precision, exponents from -1022, overflow to infinity.\<close>
  "round_double q =
     (if q = 0 then Finite 0
      else let a = \<bar>q\<bar>; e = max (ilog2 a) (- 1022);
               v = of_int (round_half_even (a / pow2 (e - 52))) * pow2 (e - 52)
           in if pow2 1024 \<le> v then (if 0 < q then PosInf else NegInf)
              else Finite (if 0 < q then v else - v))"

definition pow10 :: "int \<Rightarrow> rat" where
  "pow10 e = (if 0 \<le> e then 10 ^ nat e else 1 / 10 ^ nat (- e))"

definition exponent_part :: "string \<Rightarrow> (int \<times> string) option" where
  \<comment> \<open>\<open>[("e" | "E") [sign] digitpart]\<close>\<close>
  "exponent_part s =
     (case s of
        c # r \<Rightarrow>
          if c = CHR ''e'' \<or> c = CHR ''E''
          then (case take_sign r of (neg, r') \<Rightarrow>
                  (case digitpart r' of None \<Rightarrow> None
                   | Some (ds, rest) \<Rightarrow>
                       Some (if neg then - int_of_digits ds else int_of_digits ds, rest)))
          else Some (0, s)
      | [] \<Rightarrow> Some (0, []))"

definition number_part :: "string \<Rightarrow> (string \<times> string \<times> string) option" where
  \<comment> \<open>\<open>[digitpart] "." digitpart | digitpart ["."]\<close>: integer digits, fraction digits, rest.\<close>
  "number_part s =
     (case digitpart s of
        Some (ip, r) \<Rightarrow>
          (case r of
             c # r' \<Rightarrow>
               if c = CHR ''.''
               then (case digitpart r' of None \<Rightarrow> Some (ip, [], r') | Some (fp, r'') \<Rightarrow> Some (ip, fp, r''))
               else Some (ip, [], r)
           | [] \<Rightarrow> Some (ip, [], []))
      | None \<Rightarrow>
          (case s of
             c # r' \<Rightarrow>
               if c = CHR ''.''
               then (case digitpart r' of None \<Rightarrow> None | Some (fp, r'') \<Rightarrow> Some ([], fp, r''))
               else None
           | [] \<Rightarrow> None))"

definition py_float :: "string \<Rightarrow> pyfloat option" where
  \<comment> \<open>\<open>float(s)\<close>; \<open>None\<close> is \<open>ValueError\<close>.\<close>
  "py_float s =
     (case take_sign (literal_strip s) of (neg, r) \<Rightarrow>
        if lower r = ''inf'' \<or> lower r = ''infinity'' then Some (if neg then NegInf else PosInf)
        else if lower r = ''nan'' then Some NaN
        else (case number_part r of
                None \<Rightarrow> None
              | Some (ip, fp, r') \<Rightarrow>
                  (case exponent_part r' of
                     None \<Rightarrow> None
                   | Some (ex, rest) \<Rightarrow>
                       if rest \<noteq> [] then None
                       else let q = of_int (int_of_digits (ip @ fp)) * pow10 (ex - int (length fp))
                            in Some (round_double (if neg then - q else q)))))"

definition float_mul :: "pyfloat \<Rightarrow> rat \<Rightarrow> pyfloat" where
  \<comment> \<open>\<open>x * k\<close> for a double \<open>x\<close> and a positive constant \<open>k\<close> that is itself a double.\<close>
  "float_mul x k = (case x of Finite q \<Rightarrow> round_double (q * k) | _ \<Rightarrow> x)"

definition float_le_zero :: "pyfloat \<Rightarrow> bool" where
  \<comment> \<open>\<open>x <= 0\<close>: every comparison with NaN is false.\<close>
  "float_le_zero x = (case x of Finite q \<Rightarrow> q \<le> 0 | NegInf \<Rightarrow> True | _ \<Rightarrow> False)"

datatype round_error = RoundValueError | RoundOverflowError

definition py_round :: "pyfloat \<Rightarrow> round_error + int" where
  \<comment> \<open>\<open>round(x)\<close>: to the nearest integer, ties to even; NaN and the infinities raise.\<close>
  "py_round x =
     (case x of Finite q \<Rightarrow> Inr (round_half_even q)
      | NaN \<Rightarrow> Inl RoundValueError
      | _ \<Rightarrow> Inl RoundOverflowError)"

definition format_number :: "string \<Rightarrow> string option" where
  \<comment> \<open>\<open>_format_number(s)\<close> with two decimal places: \<open>ValueError\<close> gives \<open>"0"\<close>; \<open>None\<close> is
      the \<open>OverflowError\<close> of an infinite value, which the function does not catch.\<close>
  "format_number number_str =
     (case py_float number_str of
        None \<Rightarrow> Some ''0''
      | Some number \<Rightarrow>
          (case py_round (float_mul number (10 ^ 2)) of
             Inr i \<Rightarrow> Some (str_int i)
           | Inl RoundValueError \<Rightarrow> Some ''0''
           | Inl RoundOverflowError \<Rightarrow> None))"

section \<open>The element tree\<close>

text \<open>
  An \<open>xml.etree.ElementTree.Element\<close>: its tag, attributes, text and children. A tag is
  written with the prefix that the converter's namespace map gives to its namespace
  (\<open>cbc:ID\<close>, \<open>cac:Party\<close>), so that a path step and a tag compare as strings.
\<close>

datatype elem =
  Elem (tag: string) (attrib: "(string \<times> string) list") (etext: "string option") (children: "elem list")

text \<open>A step of an ElementPath expression: \<open>/tag\<close> selects children, \<open>//tag\<close> descendants.\<close>

datatype step = Child string | Desc string

fun descendants :: "elem \<Rightarrow> elem list" where
  \<comment> \<open>\<open>elem.iter()\<close> without \<open>elem\<close> itself, in document order.\<close>
  "descendants (Elem t a x cs) = concat (map (\<lambda>c. c # descendants c) cs)"

fun select :: "step \<Rightarrow> elem list \<Rightarrow> elem list" where
  "select (Child t) es = concat (map (\<lambda>e. filter (\<lambda>c. tag c = t) (children e)) es)"
| "select (Desc t) es = concat (map (\<lambda>e. filter (\<lambda>c. tag c = t) (descendants e)) es)"

definition findall :: "elem \<Rightarrow> step list \<Rightarrow> elem list" where
  \<comment> \<open>\<open>root.findall(path, ns)\<close>\<close>
  "findall doc path = foldl (\<lambda>es s. select s es) [doc] path"

definition find_elem :: "elem \<Rightarrow> step list \<Rightarrow> elem option" where
  \<comment> \<open>\<open>root.find(path, ns)\<close>: the first match or \<open>None\<close>.\<close>
  "find_elem doc path = (case findall doc path of [] \<Rightarrow> None | e # _ \<Rightarrow> Some e)"

definition elem_truthy :: "elem \<Rightarrow> bool" where
  \<comment> \<open>\<open>bool(element)\<close>: an \<open>Element\<close> is a sequence of its children, false when it has none.\<close>
  "elem_truthy e = (children e \<noteq> [])"

definition text_truthy :: "elem \<Rightarrow> bool" where
  \<comment> \<open>\<open>bool(e.text)\<close>: the text is neither \<open>None\<close> nor empty.\<close>
  "text_truthy e = (case etext e of None \<Rightarrow> False | Some t \<Rightarrow> t \<noteq> [])"

definition stripped_text_or :: "string \<Rightarrow> elem option \<Rightarrow> string" where
  \<comment> \<open>\<open>e.text.strip() if e is not None and e.text else d\<close>\<close>
  "stripped_text_or d eo =
     (case eo of None \<Rightarrow> d
      | Some e \<Rightarrow> (case etext e of None \<Rightarrow> d | Some t \<Rightarrow> if t = [] then d else strip t))"

section \<open>Party information\<close>

record party_info =
  party_name :: string
  party_id :: string
  party_qualifier :: string

definition qualifier_map :: "(string \<times> string) list" where
  "qualifier_map =
     [(''0002'', ''01''), (''0007'', ''14''), (''0009'', ''33''), (''0037'', ''94''),
      (''0060'', ''N1''), (''0088'', ''12''), (''0160'', ''98''), (''9930'', ''93''),
      (''0096'', ''24'')]"

definition extract_party_info :: "elem \<Rightarrow> step list \<Rightarrow> party_info" where
  "extract_party_info doc party_path =
     (case find_elem doc party_path of
        Some party \<Rightarrow>
          (let name_elem = find_elem party [Desc ''cbc:Name''];
               endpoint_elem = find_elem party [Desc ''cbc:EndpointID''];
               qualifier =
                 (case endpoint_elem of None \<Rightarrow> ''ZZ''
                  | Some ep \<Rightarrow>
                      (case map_of (attrib ep) ''schemeID'' of
                         None \<Rightarrow> ''ZZ''
                       | Some scheme_id \<Rightarrow>
                           if scheme_id \<noteq> []
                           then (case map_of qualifier_map scheme_id of
                                   None \<Rightarrow> ''ZZ'' | Some q \<Rightarrow> q)
                           else ''ZZ''));
               endpoint_id =
                 (case endpoint_elem of None \<Rightarrow> ''UNKNOWN''
                  | Some ep \<Rightarrow> stripped_text_or ''UNKNOWN'' (Some ep))
           in \<lparr> party_name = stripped_text_or ''UNKNOWN'' name_elem,
                party_id = take 15 (ljust 15 endpoint_id),
                party_qualifier = qualifier \<rparr>)
      | None \<Rightarrow>
          \<lparr> party_name = ''UNKNOWN'', party_id = ljust 15 ''UNKNOWN'',
            party_qualifier = ''ZZ'' \<rparr>)"

definition supplier_path :: "step list" where
  "supplier_path = [Desc ''cac:AccountingSupplierParty'', Child ''cac:Party'']"

definition customer_path :: "step list" where
  "customer_path = [Desc ''cac:AccountingCustomerParty'', Child ''cac:Party'']"

definition default_sender :: "party_info \<Rightarrow> party_info" where
  \<comment> \<open>\<open>if supplier["id"].strip() == "UNKNOWN": supplier["id"] = "SENDERID".ljust(15)\<close>\<close>
  "default_sender p =
     (if strip (party_id p) = ''UNKNOWN'' then p\<lparr>party_id := ljust 15 ''SENDERID''\<rparr> else p)"

definition default_receiver :: "party_info \<Rightarrow> party_info" where
  \<comment> \<open>\<open>if customer["id"].strip() == "UNKNOWN": customer["id"] = "RECEIVERID".ljust(15)\<close>\<close>
  "default_receiver p =
     (if strip (party_id p) = ''UNKNOWN'' then p\<lparr>party_id := ljust 15 ''RECEIVERID''\<rparr> else p)"

section \<open>Dates and times\<close>

text \<open>The fields of a \<open>datetime\<close> that the converter formats; \<open>datetime.now()\<close> is an input.\<close>

record timestamp =
  ts_year :: nat
  ts_month :: nat
  ts_day :: nat
  ts_hour :: nat
  ts_minute :: nat

definition pad2 :: "nat \<Rightarrow> string" where
  "pad2 n = zfill 2 (str_nat n)"

definition strftime_y2md :: "timestamp \<Rightarrow> string" where
  \<comment> \<open>\<open>strftime("%y%m%d")\<close>\<close>
  "strftime_y2md t = pad2 (ts_year t mod 100) @ pad2 (ts_month t) @ pad2 (ts_day t)"

definition strftime_HM :: "timestamp \<Rightarrow> string" where
  \<comment> \<open>\<open>strftime("%H%M")\<close>\<close>
  "strftime_HM t = pad2 (ts_hour t) @ pad2 (ts_minute t)"

definition strftime_Ymd :: "nat \<Rightarrow> nat \<Rightarrow> nat \<Rightarrow> string" where
  \<comment> \<open>\<open>strftime("%Y%m%d")\<close>; the C library of Linux writes a year below 1000 without
      leading zeros.\<close>
  "strftime_Ymd y m d = str_nat y @ pad2 m @ pad2 d"

definition digit_in :: "char \<Rightarrow> nat \<Rightarrow> nat \<Rightarrow> bool" where
  "digit_in c lo hi = (is_digit c \<and> lo \<le> digit_val c \<and> digit_val c \<le> hi)"

definition month_alts :: "string \<Rightarrow> (nat \<times> string) list" where
  \<comment> \<open>The directive \<open>%m\<close> is the pattern \<open>1[0-2]|0[1-9]|[1-9]\<close>: its matches, in the order tried.\<close>
  "month_alts s =
     (case s of
        c # d # r \<Rightarrow>
          (if c = CHR ''1'' \<and> digit_in d 0 2 then [(10 + digit_val d, r)] else []) @
          (if c = CHR ''0'' \<and> digit_in d 1 9 then [(digit_val d, r)] else [])
      | _ \<Rightarrow> []) @
     (case s of c # r \<Rightarrow> if digit_in c 1 9 then [(digit_val c, r)] else [] | [] \<Rightarrow> [])"

definition day_alts :: "string \<Rightarrow> (nat \<times> string) list" where
  \<comment> \<open>The directive \<open>%d\<close> is the pattern \<open>3[0-1]|[1-2]\d|0[1-9]|[1-9]| [1-9]\<close>.\<close>
  "day_alts s =
     (case s of
        c # d # r \<Rightarrow>
          (if c = CHR ''3'' \<and> digit_in d 0 1 then [(30 + digit_val d, r)] else []) @
          (if digit_in c 1 2 \<and> is_digit d then [(10 * digit_val c + digit_val d, r)] else []) @
          (if c = CHR ''0'' \<and> digit_in d 1 9 then [(digit_val d, r)] else [])
      | _ \<Rightarrow> []) @
     (case s of c # r \<Rightarrow> if digit_in c 1 9 then [(digit_val c, r)] else [] | [] \<Rightarrow> []) @
     (case s of
        c # d # r \<Rightarrow> if c = CHR '' '' \<and> digit_in d 1 9 then [(digit_val d, r)] else []
      | _ \<Rightarrow> [])"

definition is_leap :: "nat \<Rightarrow> bool" where
  "is_leap y = (y mod 4 = 0 \<and> (y mod 100 \<noteq> 0 \<or> y mod 400 = 0))"

definition days_in_month :: "nat \<Rightarrow> nat \<Rightarrow> nat" where
  "days_in_month y m =
     (if m = 2 then (if is_leap y then 29 else 28)
      else if m = 4 \<or> m = 6 \<or> m = 9 \<or> m = 11 then 30 else 31)"

definition strptime_Ymd :: "string \<Rightarrow> (nat \<times> nat \<times> nat) option" where
  \<comment> \<open>\<open>datetime.strptime(s, "%Y-%m-%d")\<close>: the format is matched as a regular expression
      from the start of \<open>s\<close>, nothing may remain after the match, and the date must exist
      (years from 1). \<open>None\<close> is \<open>ValueError\<close>.\<close>
  "strptime_Ymd s =
     (case s of
        y1 # y2 # y3 # y4 # sep # r \<Rightarrow>
          if is_digit y1 \<and> is_digit y2 \<and> is_digit y3 \<and> is_digit y4 \<and> sep = CHR ''-''
          then (case concat (map (\<lambda>(m, r1).
                         (case r1 of
                            c # r2 \<Rightarrow> if c = CHR ''-'' then map (\<lambda>(d, r3). (m, d, r3)) (day_alts r2) else []
                          | [] \<Rightarrow> [])) (month_alts r)) of
                  [] \<Rightarrow> None
                | (m, d, rest) # _ \<Rightarrow>
                    let y = nat (int_of_digits [y1, y2, y3, y4])
                    in if rest = [] \<and> 1 \<le> y \<and> d \<le> days_in_month y m then Some (y, m, d) else None)
          else None
      | _ \<Rightarrow> None)"

section \<open>Control numbers\<close>

record control_numbers =
  interchange_control :: string
  group_control :: string
  transaction_control :: string

definition control_field :: "nat \<Rightarrow> string \<Rightarrow> elem option \<Rightarrow> string option" where
  \<comment> \<open>\<open>(e.text[:w] if e else zeros).zfill(w)\<close>: the condition is the truth value of the
      element. \<open>None\<close> is the \<open>TypeError\<close> of slicing a text that is \<open>None\<close>.\<close>
  "control_field w zeros eo =
     (case eo of
        None \<Rightarrow> Some (zfill w zeros)
      | Some e \<Rightarrow>
          if elem_truthy e
          then (case etext e of None \<Rightarrow> None | Some t \<Rightarrow> Some (zfill w (take w t)))
          else Some (zfill w zeros))"

definition X12ControlNumbers :: "elem \<Rightarrow> control_numbers option" where
  "X12ControlNumbers doc =
     do {
       ic \<leftarrow> control_field 9 ''000000000'' (find_elem doc [Desc ''cbc:ID'']);
       gc \<leftarrow> control_field 6 ''000000'' (find_elem doc [Desc ''cac:OrderReference'', Child ''cbc:ID'']);
       tc \<leftarrow> control_field 4 ''0000''
              (find_elem doc [Desc ''cac:OriginatorDocumentReference'', Child ''cbc:ID'']);
       Some \<lparr> interchange_control = ic, group_control = gc, transaction_control = tc \<rparr>
     }"

section \<open>Addresses\<close>

record postal_address =
  addr_street :: string
  addr_city :: string
  addr_postal :: string
  addr_country :: string

definition extract_postal_address :: "elem \<Rightarrow> step list \<Rightarrow> postal_address" where
  "extract_postal_address doc party_path =
     (case find_elem doc (party_path @ [Child ''cac:PostalAddress'']) of
        Some address \<Rightarrow>
          \<lparr> addr_street = stripped_text_or [] (find_elem address [Child ''cbc:StreetName'']),
            addr_city = stripped_text_or [] (find_elem address [Child ''cbc:CityName'']),
            addr_postal = stripped_text_or [] (find_elem address [Child ''cbc:PostalZone'']),
            addr_country = stripped_text_or []
              (find_elem address [Child ''cac:Country'', Child ''cbc:IdentificationCode'']) \<rparr>
      | None \<Rightarrow> \<lparr> addr_street = [], addr_city = [], addr_postal = [], addr_country = [] \<rparr>)"

definition map_address :: "postal_address \<Rightarrow> string \<times> string \<times> string" where
  \<comment> \<open>The state code of the two known cities, and \<open>AU\<close> rewritten to \<open>AUS\<close>.\<close>
  "map_address address =
     (let state = (if lower (addr_city address) = ''north sydney'' then ''NS''
                   else if lower (addr_city address) = ''port lincoln'' then ''SA'' else ''XX'');
          country = (if upper (addr_country address) = ''AU'' then ''AUS'' else addr_country address)
      in (state, addr_postal address, country))"

section \<open>The ISA segment\<close>

definition isa_elements :: "party_info \<Rightarrow> party_info \<Rightarrow> control_numbers \<Rightarrow> timestamp \<Rightarrow> string list" where
  "isa_elements supplier customer control current_time =
     [''ISA'', ''00'', replicate 10 CHR '' '', ''00'', replicate 10 CHR '' '',
      ljust 2 (take 2 (party_qualifier supplier)), ljust 15 (take 15 (party_id supplier)),
      ljust 2 (take 2 (party_qualifier customer)), ljust 15 (take 15 (party_id customer)),
      strftime_y2md current_time, strftime_HM current_time, ''U'', ''00401'',
      zfill 9 (interchange_control control), ''0'', ''P'', ''>'']"

definition create_ISA_segment :: "party_info \<Rightarrow> party_info \<Rightarrow> control_numbers \<Rightarrow> timestamp \<Rightarrow> string" where
  \<comment> \<open>\<open>"*".join(isa_elements) + "~"\<close>, with no padding of the whole segment afterwards.\<close>
  "create_ISA_segment supplier customer control current_time =
     join ''*'' (isa_elements supplier customer control current_time) @ ''~''"

section \<open>The X12 encoder\<close>

text \<open>
  What the path of the stored XML holds: no file (with the path), a file that cannot be
  opened or decoded (with the text of the exception), an empty file, a document that is not
  well-formed (with the parser's message), or the root element of a well-formed document.
\<close>

datatype xml_source =
  NotFound string | Unreadable string | EmptyFile | NotWellFormed string | WellFormed elem

text \<open>
  What \<open>read_file_from_storage\<close> gives: the text of the exception it raises, or the content.
\<close>

datatype 'a read_result = ReadFailed string | ReadOk 'a

definition gs_segment :: "party_info \<Rightarrow> party_info \<Rightarrow> control_numbers \<Rightarrow> timestamp \<Rightarrow> string" where
  "gs_segment supplier customer control current_time =
     ''GS*IN*'' @ strip (party_id supplier) @ ''*'' @ strip (party_id customer) @ ''*'' @
     strftime_Ymd (ts_year current_time) (ts_month current_time) (ts_day current_time) @ ''*'' @
     strftime_HM current_time @ ''*'' @ group_control control @ ''*X*004010~''"

definition st_segment :: "control_numbers \<Rightarrow> string" where
  "st_segment control = ''ST*810*'' @ transaction_control control @ ''~''"

definition formatted_date :: "elem \<Rightarrow> string option" where
  \<comment> \<open>The issue date as \<open>YYYYMMDD\<close>: empty when absent or \<open>0000-00-00\<close>; \<open>None\<close> is the
      \<open>ValueError\<close> of a text that \<open>strptime\<close> refuses.\<close>
  "formatted_date doc =
     (let invoice_date = stripped_text_or [] (find_elem doc [Desc ''cbc:IssueDate''])
      in if invoice_date = ''0000-00-00'' then Some []
         else if invoice_date \<noteq> []
         then map_option (\<lambda>(y, m, d). strftime_Ymd y m d) (strptime_Ymd invoice_date)
         else Some [])"

definition big_segment :: "elem \<Rightarrow> string option" where
  "big_segment doc =
     do {
       date \<leftarrow> formatted_date doc;
       Some (''BIG*'' @ date @ ''*'' @ stripped_text_or [] (find_elem doc [Desc ''cbc:ID'']) @ ''~'')
     }"

definition note_segments :: "elem \<Rightarrow> string list" where
  "note_segments doc =
     (case find_elem doc [Desc ''cbc:Note''] of
        Some e \<Rightarrow>
          if text_truthy e \<and> strip (the (etext e)) \<noteq> ''.'' \<and> strip (the (etext e)) \<noteq> []
          then [''NTE*GEN*'' @ strip (the (etext e)) @ ''~''] else []
      | None \<Rightarrow> [])"

definition currency_segments :: "elem \<Rightarrow> string list" where
  "currency_segments doc =
     (case find_elem doc [Desc ''cbc:DocumentCurrencyCode''] of
        Some e \<Rightarrow> if text_truthy e then [''CUR*BY*'' @ strip (the (etext e)) @ ''~''] else []
      | None \<Rightarrow> [])"

definition contract_segments :: "elem \<Rightarrow> string list" where
  "contract_segments doc =
     (case find_elem doc [Desc ''cac:ContractDocumentReference'', Child ''cbc:ID''] of
        Some e \<Rightarrow> if text_truthy e then [''REF*CT*'' @ strip (the (etext e)) @ ''~''] else []
      | None \<Rightarrow> [])"

definition contact_segments :: "elem \<Rightarrow> string list" where
  "contact_segments doc =
     (case find_elem doc [Desc ''cac:AccountingSupplierParty'', Desc ''cac:Contact''] of
        Some contact \<Rightarrow>
          (case (find_elem contact [Child ''cbc:Name''], find_elem contact [Child ''cbc:Telephone'']) of
             (Some contact_name, Some contact_phone) \<Rightarrow>
               if text_truthy contact_name \<and> text_truthy contact_phone
               then [''PER*IC*'' @ strip (the (etext contact_name)) @ ''*TE*'' @
                     strip (the (etext contact_phone)) @ ''~'']
               else []
           | _ \<Rightarrow> [])
      | None \<Rightarrow> [])"

definition n1_segment :: "string \<Rightarrow> party_info \<Rightarrow> string" where
  \<comment> \<open>\<open>f"N1*{code}*{name}*{qualifier}*{id.strip()}~"\<close>\<close>
  "n1_segment code p =
     ''N1*'' @ code @ ''*'' @ party_name p @ ''*'' @ party_qualifier p @ ''*'' @ strip (party_id p) @ ''~''"

definition address_segments :: "elem \<Rightarrow> step list \<Rightarrow> string list" where
  \<comment> \<open>N3 when there is a street, N4 when there is a city, a postal code or a country.\<close>
  "address_segments doc party_path =
     (let address = extract_postal_address doc party_path
      in (if addr_street address \<noteq> [] then [''N3*'' @ addr_street address @ ''~''] else []) @
         (case map_address address of
            (state, postal, country) \<Rightarrow>
              if addr_city address \<noteq> [] \<or> postal \<noteq> [] \<or> country \<noteq> []
              then [''N4*'' @ addr_city address @ ''*'' @ state @ ''*'' @ postal @ ''*'' @ country @ ''~'']
              else []))"

definition payment_terms_segments :: "elem \<Rightarrow> string list" where
  "payment_terms_segments doc =
     (case find_elem doc [Desc ''cac:PaymentTerms'', Child ''cbc:Note''] of
        Some e \<Rightarrow>
          if text_truthy e
          then (let term = strip (the (etext e));
                    term = (if startswith (lower term) ''pay immediately'' then ''1'' else term)
                in [''ITD*01*'' @ term @ ''~''])
          else []
      | None \<Rightarrow> [])"

definition due_date_segments :: "elem \<Rightarrow> string list option" where
  \<comment> \<open>The DTM segment of a due date; \<open>None\<close> is the \<open>ValueError\<close> of \<open>strptime\<close>.\<close>
  "due_date_segments doc =
     (case find_elem doc [Desc ''cbc:DueDate''] of
        Some e \<Rightarrow>
          if text_truthy e
          then (case strptime_Ymd (strip (the (etext e))) of
                  None \<Rightarrow> None
                | Some (y, m, d) \<Rightarrow> Some [''DTM*011*'' @ strftime_Ymd y m d @ ''~''])
          else Some []
      | None \<Rightarrow> Some [])"

definition delivery_segments :: "elem \<Rightarrow> string list" where
  "delivery_segments doc =
     (case find_elem doc [Desc ''cac:Delivery''] of Some _ \<Rightarrow> [''FOB*CC~''] | None \<Rightarrow> [])"

definition it1_segment :: "nat \<Rightarrow> elem \<Rightarrow> string option" where
  \<comment> \<open>The IT1 segment of the invoice line numbered \<open>idx\<close>; \<open>None\<close> when \<open>_format_number\<close> raises.\<close>
  "it1_segment idx line =
     (let quantity_val = stripped_text_or ''0'' (find_elem line [Child ''cbc:InvoicedQuantity'']);
          product_code = stripped_text_or []
            (find_elem line [Desc ''cac:Item'', Child ''cac:SellersItemIdentification'', Child ''cbc:ID''])
      in do {
           price_val \<leftarrow>
             (case find_elem line [Desc ''cac:Price'', Child ''cbc:PriceAmount''] of
                Some e \<Rightarrow> if text_truthy e then format_number (the (etext e)) else Some ''0''
              | None \<Rightarrow> Some ''0'');
           Some (''IT1*'' @ str_nat idx @ ''*'' @ quantity_val @ ''*EA*'' @ price_val @ ''*CP*VP*'' @
                 product_code @ ''~'')
         })"

fun it1_segments :: "nat \<Rightarrow> elem list \<Rightarrow> string list option" where
  \<comment> \<open>\<open>for idx, line in enumerate(invoice_lines, idx)\<close>\<close>
  "it1_segments idx [] = Some []"
| "it1_segments idx (line # lines) =
     do { seg \<leftarrow> it1_segment idx line; segs \<leftarrow> it1_segments (Suc idx) lines; Some (seg # segs) }"

definition tds_segments :: "elem \<Rightarrow> string list option" where
  "tds_segments doc =
     (case find_elem doc [Desc ''cac:LegalMonetaryTotal'', Child ''cbc:PayableAmount''] of
        Some e \<Rightarrow>
          if text_truthy e
          then map_option (\<lambda>formatted_total. [''TDS*'' @ formatted_total @ ''~'']) (format_number (the (etext e)))
          else Some []
      | None \<Rightarrow> Some [])"

definition lstrip_zeros :: "string \<Rightarrow> string" where
  \<comment> \<open>\<open>s.lstrip("0")\<close>\<close>
  "lstrip_zeros s = dropWhile (\<lambda>c. c = CHR ''0'') s"

definition line_id_value :: "elem \<Rightarrow> int option" where
  \<comment> \<open>\<open>int(line.find("cbc:ID", ns).text.lstrip("0") or "0")\<close>: \<open>None\<close> when the line has no
      id element, when its text is \<open>None\<close>, or when \<open>int\<close> refuses the text.\<close>
  "line_id_value line =
     (case find_elem line [Child ''cbc:ID''] of
        None \<Rightarrow> None
      | Some e \<Rightarrow>
          (case etext e of
             None \<Rightarrow> None
           | Some t \<Rightarrow> py_int (if lstrip_zeros t = [] then ''0'' else lstrip_zeros t)))"

fun hash_total :: "elem list \<Rightarrow> int option" where
  \<comment> \<open>\<open>sum(... for line in invoice_lines)\<close>\<close>
  "hash_total [] = Some 0"
| "hash_total (line # lines) =
     do { v \<leftarrow> line_id_value line; t \<leftarrow> hash_total lines; Some (v + t) }"

definition ctt_segment :: "elem list \<Rightarrow> string option" where
  "ctt_segment invoice_lines =
     do {
       h \<leftarrow> hash_total invoice_lines;
       hash_str \<leftarrow> py_str_int h;
       Some (''CTT*'' @ str_nat (length invoice_lines) @ ''*'' @ hash_str @ ''~'')
     }"

fun first_index :: "('a \<Rightarrow> bool) \<Rightarrow> 'a list \<Rightarrow> nat option" where
  \<comment> \<open>\<open>next(i for i, x in enumerate(xs) if P(x))\<close>; \<open>None\<close> is \<open>StopIteration\<close>.\<close>
  "first_index P [] = None"
| "first_index P (x # xs) = (if P x then Some 0 else map_option Suc (first_index P xs))"

definition se_segment :: "string list \<Rightarrow> control_numbers \<Rightarrow> string option" where
  \<comment> \<open>The trailer of the transaction set, computed from the segments appended so far.\<close>
  "se_segment segs control =
     do {
       st_index \<leftarrow> first_index (\<lambda>seg. startswith seg ''ST'') segs;
       Some (''SE*'' @ str_nat (length segs - st_index + 1) @ ''*'' @ transaction_control control @ ''~'')
     }"

definition optional_header_segments :: "elem \<Rightarrow> string list" where
  \<comment> \<open>The optional NTE, CUR, REF and PER segments that follow BIG.\<close>
  "optional_header_segments doc =
     note_segments doc @ currency_segments doc @ contract_segments doc @ contact_segments doc"

definition detail_segments :: "elem \<Rightarrow> party_info \<Rightarrow> party_info \<Rightarrow> string list option" where
  \<comment> \<open>The segments appended after BIG and before CTT, in the order of the source.\<close>
  "detail_segments doc supplier customer =
     do {
       dtm \<leftarrow> due_date_segments doc;
       it1 \<leftarrow> it1_segments 1 (findall doc [Desc ''cac:InvoiceLine'']);
       tds \<leftarrow> tds_segments doc;
       Some (optional_header_segments doc @
             [n1_segment ''SU'' supplier] @ address_segments doc supplier_path @
             [n1_segment ''BY'' customer] @ address_segments doc customer_path @
             payment_terms_segments doc @ dtm @ delivery_segments doc @ it1 @ tds)
     }"

definition x12_segments :: "timestamp \<Rightarrow> elem \<Rightarrow> string list option" where
  \<comment> \<open>The list \<open>x12_segments\<close> that \<open>_convert_xml_to_x12_content\<close> builds from the parsed
      document; \<open>None\<close> when an exception is raised on the way.\<close>
  "x12_segments current_time doc =
     do {
       control \<leftarrow> X12ControlNumbers doc;
       let supplier = default_sender (extract_party_info doc supplier_path);
       let customer = default_receiver (extract_party_info doc customer_path);
       big \<leftarrow> big_segment doc;
       detail \<leftarrow> detail_segments doc supplier customer;
       ctt \<leftarrow> ctt_segment (findall doc [Desc ''cac:InvoiceLine'']);
       let segs =
         [create_ISA_segment supplier customer control current_time,
          gs_segment supplier customer control current_time, st_segment control, big] @
         detail @ [ctt];
       se \<leftarrow> se_segment segs control;
       Some (segs @ [se, ''GE*1*'' @ group_control control @ ''~'',
                     ''IEA*1*'' @ interchange_control control @ ''~''])
     }"

definition convert_xml_to_x12_content :: "timestamp \<Rightarrow> xml_source \<Rightarrow> string option" where
  \<comment> \<open>\<open>_convert_xml_to_x12_content\<close>: the segments joined by newlines, or \<open>None\<close> when the
      content does not parse or any exception was caught.\<close>
  "convert_xml_to_x12_content current_time src =
     (case src of
        WellFormed doc \<Rightarrow> map_option (join [CHR 0x0A]) (x12_segments current_time doc)
      | _ \<Rightarrow> None)"

section \<open>The EDI format validator\<close>

record seg_result =
  valid :: bool
  errors :: "string list"

record validation_results =
  isa_result :: seg_result
  gs_result :: seg_result
  st_result :: seg_result
  big_result :: seg_result
  n1_result :: seg_result
  it1_result :: seg_result
  tds_result :: seg_result
  trailer_result :: seg_result

definition quoted :: "string \<Rightarrow> string" where
  \<comment> \<open>A word between apostrophes, as the messages write the expected codes.\<close>
  "quoted s = CHR 0x27 # s @ [CHR 0x27]"

definition edi_segments :: "string \<Rightarrow> string list" where
  \<comment> \<open>\<open>[seg.strip() for seg in edi_content.split('~') if seg.strip()]\<close>\<close>
  "edi_segments edi_content = filter (\<lambda>seg. seg \<noteq> []) (map strip (split_on CHR ''~'' edi_content))"

definition first_segment :: "string \<Rightarrow> string list \<Rightarrow> string option" where
  \<comment> \<open>\<open>next((seg for seg in segments if seg.startswith(tag)), None)\<close>\<close>
  "first_segment t segments = find (\<lambda>seg. startswith seg t) segments"

definition checked :: "string list \<Rightarrow> seg_result" where
  \<comment> \<open>A segment that was found with enough fields is valid when no error was recorded.\<close>
  "checked errs = \<lparr> valid = (errs = []), errors = errs \<rparr>"

definition failed :: "string \<Rightarrow> seg_result" where
  "failed msg = \<lparr> valid = False, errors = [msg] \<rparr>"

definition len_error :: "string list \<Rightarrow> nat \<Rightarrow> nat \<Rightarrow> string \<Rightarrow> string list" where
  \<comment> \<open>\<open>if len(fields[i]) != n: errors.append(msg)\<close>\<close>
  "len_error fs i n msg = (if length (fs ! i) \<noteq> n then [msg] else [])"

definition validate_isa :: "string list \<Rightarrow> seg_result" where
  "validate_isa segments =
     (case first_segment ''ISA'' segments of
        Some isa \<Rightarrow>
          (let isa_fields = split_on CHR ''*'' isa
           in if 16 \<le> length isa_fields
              then checked
                (len_error isa_fields 1 2 ''ISA02: Authorization Info Qualifier must be 2 characters'' @
                 len_error isa_fields 2 10 ''ISA03: Authorization Info must be 10 characters'' @
                 len_error isa_fields 3 2 ''ISA04: Security Info Qualifier must be 2 characters'' @
                 len_error isa_fields 4 10 ''ISA05: Security Info must be 10 characters'' @
                 len_error isa_fields 5 2 ''ISA06: Interchange ID Qualifier must be 2 characters'' @
                 len_error isa_fields 6 15 ''ISA07: Sender ID must be 15 characters'' @
                 len_error isa_fields 7 2 ''ISA08: Interchange ID Qualifier must be 2 characters'' @
                 len_error isa_fields 8 15 ''ISA09: Receiver ID must be 15 characters'')
              else failed ''ISA segment must have at least 16 fields'')
      | None \<Rightarrow> failed ''ISA segment not found'')"

definition validate_gs :: "string list \<Rightarrow> seg_result" where
  "validate_gs segments =
     (case first_segment ''GS'' segments of
        Some gs \<Rightarrow>
          (let gs_fields = split_on CHR ''*'' gs
           in if 8 \<le> length gs_fields
              then checked
                ((if gs_fields ! 1 \<noteq> ''IN''
                  then [''GS02: Functional Identifier must be '' @ quoted ''IN'' @ '' for Invoice'']
                  else []) @
                 len_error gs_fields 2 2 ''GS03: Application Sender Code must be 2 characters'' @
                 len_error gs_fields 3 2 ''GS04: Application Receiver Code must be 2 characters'')
              else failed ''GS segment must have at least 8 fields'')
      | None \<Rightarrow> failed ''GS segment not found'')"

definition validate_st :: "string list \<Rightarrow> seg_result" where
  "validate_st segments =
     (case first_segment ''ST'' segments of
        Some st \<Rightarrow>
          (let st_fields = split_on CHR ''*'' st
           in if 2 \<le> length st_fields
              then checked
                (if st_fields ! 1 \<noteq> ''810''
                 then [''ST02: Transaction Set Identifier must be '' @ quoted ''810'' @ '' for Invoice'']
                 else [])
              else failed ''ST segment must have at least 2 fields'')
      | None \<Rightarrow> failed ''ST segment not found'')"

definition big_date_errors :: "string \<Rightarrow> string list" where
  \<comment> \<open>The check of the date field \<open>big_fields[1]\<close>: three slices read by \<open>int\<close>, the month
      within 1..12 and the day within 1..31.\<close>
  "big_date_errors d =
     (if d \<noteq> [] \<and> length d = 8
      then (case (py_int (take 4 d), py_int (take 2 (drop 4 d)), py_int (take 2 (drop 6 d))) of
              (Some year, Some month, Some day) \<Rightarrow>
                if \<not> (1 \<le> month \<and> month \<le> 12 \<and> 1 \<le> day \<and> day \<le> 31)
                then [''BIG02: Invalid date format''] else []
            | _ \<Rightarrow> [''BIG02: Date must be numeric YYYYMMDD format''])
      else [''BIG02: Invoice date must be 8 characters (YYYYMMDD)''])"

definition validate_big :: "string list \<Rightarrow> seg_result" where
  "validate_big segments =
     (case first_segment ''BIG'' segments of
        Some big \<Rightarrow>
          (let big_fields = split_on CHR ''*'' big
           in if 3 \<le> length big_fields
              then checked
                (big_date_errors (big_fields ! 1) @
                 (if big_fields ! 2 = [] then [''BIG03: Invoice number cannot be empty''] else []))
              else failed ''BIG segment must have at least 3 fields'')
      | None \<Rightarrow> failed ''BIG segment not found'')"

definition n1_errors :: "nat \<Rightarrow> string \<Rightarrow> string list" where
  \<comment> \<open>The check of the \<open>i\<close>-th N1 segment (counted from 0).\<close>
  "n1_errors i n1_seg =
     (let n1_fields = split_on CHR ''*'' n1_seg
      in if 2 \<le> length n1_fields
         then (if n1_fields ! 1 \<noteq> ''BY'' \<and> n1_fields ! 1 \<noteq> ''SE''
               then [''N1-'' @ str_nat (i + 1) @ '': Entity Identifier must be '' @ quoted ''BY'' @
                     '' or '' @ quoted ''SE'']
               else [])
         else [''N1-'' @ str_nat (i + 1) @ '': Segment must have at least 2 fields''])"

definition validate_n1 :: "string list \<Rightarrow> seg_result" where
  "validate_n1 segments =
     (let n1_segments = filter (\<lambda>seg. startswith seg ''N1'') segments
      in if 2 \<le> length n1_segments
         then checked (concat (map (\<lambda>(i, n1_seg). n1_errors i n1_seg) (enumerate 0 n1_segments)))
         else failed ''Must have at least 2 N1 segments (Buyer and Seller)'')"

definition positive_errors :: "string \<Rightarrow> string \<Rightarrow> string \<Rightarrow> string list" where
  \<comment> \<open>\<open>v = float(f) if f else 0; if v <= 0: ...\<close>, with \<open>ValueError\<close> caught.\<close>
  "positive_errors f not_positive not_numeric =
     (if f = [] then [not_positive]
      else (case py_float f of
              None \<Rightarrow> [not_numeric]
            | Some v \<Rightarrow> if float_le_zero v then [not_positive] else []))"

definition validate_it1 :: "string list \<Rightarrow> seg_result" where
  "validate_it1 segments =
     (case first_segment ''IT1'' segments of
        Some it1 \<Rightarrow>
          (let it1_fields = split_on CHR ''*'' it1
           in if 6 \<le> length it1_fields
              then checked (positive_errors (it1_fields ! 2)
                     ''IT103: Quantity must be greater than 0'' ''IT103: Quantity must be numeric'')
              else failed ''IT1 segment must have at least 6 fields'')
      | None \<Rightarrow> failed ''IT1 segment not found'')"

definition validate_tds :: "string list \<Rightarrow> seg_result" where
  "validate_tds segments =
     (case first_segment ''TDS'' segments of
        Some tds \<Rightarrow>
          (let tds_fields = split_on CHR ''*'' tds
           in if 2 \<le> length tds_fields
              then checked (positive_errors (tds_fields ! 1)
                     ''TDS02: Total amount must be greater than 0'' ''TDS02: Total amount must be numeric'')
              else failed ''TDS segment must have at least 2 fields'')
      | None \<Rightarrow> failed ''TDS segment not found'')"

definition validate_trailers :: "string list \<Rightarrow> seg_result" where
  "validate_trailers segments =
     checked (concat (map (\<lambda>name. case first_segment name segments of
                                     Some _ \<Rightarrow> [] | None \<Rightarrow> [name @ '' segment not found''])
                          [''CTT'', ''SE'', ''GE'', ''IEA'']))"

definition validation_of :: "string list \<Rightarrow> validation_results" where
  "validation_of segments =
     \<lparr> isa_result = validate_isa segments, gs_result = validate_gs segments,
       st_result = validate_st segments, big_result = validate_big segments,
       n1_result = validate_n1 segments, it1_result = validate_it1 segments,
       tds_result = validate_tds segments, trailer_result = validate_trailers segments \<rparr>"

definition results_list :: "validation_results \<Rightarrow> seg_result list" where
  \<comment> \<open>\<open>validation_results.values()\<close>\<close>
  "results_list r =
     [isa_result r, gs_result r, st_result r, big_result r, n1_result r, it1_result r,
      tds_result r, trailer_result r]"

text \<open>
  What reading and decoding the EDI file gives: a \<open>FileNotFoundError\<close> (with the path the
  validator was given), another exception (with its text), or the text of the file.
\<close>

datatype edi_source = EdiNotFound string | EdiUnreadable string | EdiText string

definition validate_edi_format :: "edi_source \<Rightarrow> bool \<times> string \<times> validation_results option" where
  "validate_edi_format edi =
     (case edi of
        EdiNotFound edi_path \<Rightarrow> (False, ''EDI file not found: '' @ edi_path, None)
      | EdiUnreadable e \<Rightarrow> (False, ''EDI format validation error: '' @ e, None)
      | EdiText edi_content \<Rightarrow>
          (let results = validation_of (edi_segments edi_content);
               all_valid = list_all valid (results_list results);
               total_errors = sum_list (map (\<lambda>r. length (errors r)) (results_list results))
           in if all_valid then (True, ''EDI format validation passed'', None)
              else (False, ''EDI format validation failed with '' @ str_nat total_errors @ '' errors'',
                    Some results)))"

section \<open>The XML validator\<close>

definition warn :: "string \<Rightarrow> string" where
  \<comment> \<open>A warning text: the warning sign (U+26A0 U+FE0F, here in UTF-8) before the message.\<close>
  "warn msg = map char_of [0xE2, 0x9A, 0xA0, 0xEF, 0xB8, 0x8F :: nat] @ '' '' @ msg"

definition missing_warning :: "bool \<Rightarrow> string \<Rightarrow> string list" where
  \<comment> \<open>\<open>if e is None: warnings.append(msg)\<close>\<close>
  "missing_warning absent msg = (if absent then [warn msg] else [])"

definition stripped_text :: "elem option \<Rightarrow> string option" where
  \<comment> \<open>The value a content check looks at: \<open>e.text.strip()\<close> when \<open>e is not None and e.text\<close>.\<close>
  "stripped_text eo =
     (case eo of
        Some e \<Rightarrow> (case etext e of Some t \<Rightarrow> if t \<noteq> [] then Some (strip t) else None | None \<Rightarrow> None)
      | None \<Rightarrow> None)"

definition length_warnings :: "elem option \<Rightarrow> nat \<Rightarrow> string \<Rightarrow> string \<Rightarrow> string list" where
  \<comment> \<open>The check of an id or a name: empty after stripping, or longer than the bound.\<close>
  "length_warnings eo bound empty_msg long_msg =
     (case stripped_text eo of
        Some v \<Rightarrow>
          if length v < 1 then [warn empty_msg]
          else if bound < length v then [warn long_msg] else []
      | None \<Rightarrow> [])"

definition format_warnings :: "elem option \<Rightarrow> (string \<Rightarrow> bool) \<Rightarrow> string \<Rightarrow> string \<Rightarrow> string list" where
  \<comment> \<open>The check of the date or the amount: empty after stripping, or refused by the
      conversion (\<open>ValueError\<close>).\<close>
  "format_warnings eo converts empty_msg format_msg =
     (case stripped_text eo of
        Some v \<Rightarrow>
          if length v < 1 then [warn empty_msg]
          else if converts v then [] else [warn format_msg]
      | None \<Rightarrow> [])"

definition float_warnings :: "elem option \<Rightarrow> string \<Rightarrow> string list" where
  \<comment> \<open>The check of a quantity or a price of a line: \<open>float\<close> must accept the stripped text.\<close>
  "float_warnings eo format_msg =
     (case stripped_text eo of
        Some v \<Rightarrow> if py_float v \<noteq> None then [] else [warn format_msg]
      | None \<Rightarrow> [])"

definition line_warnings :: "nat \<Rightarrow> elem \<Rightarrow> string list" where
  \<comment> \<open>The checks of the invoice line numbered \<open>i\<close>.\<close>
  "line_warnings i line =
     (case stripped_text (find_elem line [Child ''cbc:ID'']) of
        Some v \<Rightarrow> if length v < 1 then [warn (''Invoice Line '' @ str_nat i @ '' ID is empty'')] else []
      | None \<Rightarrow> []) @
     float_warnings (find_elem line [Child ''cbc:InvoicedQuantity''])
       (''Invoice Line '' @ str_nat i @ '' quantity format may be invalid'') @
     float_warnings (find_elem line [Desc ''cac:Price'', Child ''cbc:PriceAmount''])
       (''Invoice Line '' @ str_nat i @ '' price format may be invalid'')"

definition perform_strict_content_validation :: "elem \<Rightarrow> string list" where
  "perform_strict_content_validation doc =
     length_warnings (find_elem doc [Desc ''cbc:ID'']) 100
       ''Invoice ID is empty'' ''Invoice ID is too long (>100 characters)'' @
     format_warnings (find_elem doc [Desc ''cbc:IssueDate'']) (\<lambda>v. strptime_Ymd v \<noteq> None)
       ''Issue Date is empty'' ''Issue Date format may be invalid (expected YYYY-MM-DD)'' @
     format_warnings (find_elem doc [Desc ''cac:LegalMonetaryTotal'', Child ''cbc:PayableAmount''])
       (\<lambda>v. py_float v \<noteq> None)
       ''Payable Amount is empty'' ''Payable Amount format may be invalid (expected decimal number)'' @
     length_warnings (find_elem doc [Desc ''cac:AccountingSupplierParty'', Desc ''cbc:Name'']) 255
       ''Supplier Name is empty'' ''Supplier Name is too long (>255 characters)'' @
     length_warnings (find_elem doc [Desc ''cac:AccountingCustomerParty'', Desc ''cbc:Name'']) 255
       ''Customer Name is empty'' ''Customer Name is too long (>255 characters)'' @
     concat (map (\<lambda>(i, line). line_warnings i line) (enumerate 1 (findall doc [Desc ''cac:InvoiceLine''])))"

definition perform_enhanced_xml_validation :: "elem \<Rightarrow> string list" where
  "perform_enhanced_xml_validation doc =
     missing_warning (find_elem doc [Desc ''cbc:ID''] = None)
       ''No UBL Invoice ID (cbc:ID) found - may affect conversion'' @
     missing_warning (find_elem doc [Desc ''cbc:IssueDate''] = None)
       ''No UBL Issue Date (cbc:IssueDate) found - may affect conversion'' @
     missing_warning (find_elem doc [Desc ''cac:LegalMonetaryTotal'', Child ''cbc:PayableAmount''] = None)
       ''No UBL Payable Amount found - may affect conversion'' @
     missing_warning (find_elem doc [Desc ''cac:AccountingSupplierParty''] = None)
       ''No UBL Supplier Party found - may affect conversion'' @
     missing_warning (find_elem doc [Desc ''cac:AccountingCustomerParty''] = None)
       ''No UBL Customer Party found - may affect conversion'' @
     missing_warning (findall doc [Desc ''cac:InvoiceLine''] = [])
       ''No UBL Invoice Lines found - may affect conversion'' @
     perform_strict_content_validation doc"

definition validate_xml :: "xml_source \<Rightarrow> bool \<Rightarrow> bool \<times> string \<times> string list" where
  \<comment> \<open>\<open>validate_xml(file_path, strict_validation)\<close> on a local path: the first argument is what
      the path holds.\<close>
  "validate_xml src strict_validation =
     (case src of
        NotFound file_path \<Rightarrow> (False, ''XML file not found: '' @ file_path, [])
      | Unreadable e \<Rightarrow> (False, ''XML validation error: '' @ e, [])
      | EmptyFile \<Rightarrow> (False, ''XML file is empty'', [])
      | NotWellFormed e \<Rightarrow> (False, ''XML parsing error: '' @ e, [])
      | WellFormed doc \<Rightarrow>
          (let validation_warnings = perform_enhanced_xml_validation doc
           in if strict_validation \<and> validation_warnings \<noteq> []
              then (False, ''Strict validation failed: '' @ join ''; '' validation_warnings,
                    validation_warnings)
              else (True, ''XML validation passed - file is well-formed'', validation_warnings)))"

definition convert_xml_to_x12 ::
  "timestamp \<Rightarrow> xml_source read_result \<Rightarrow> string option \<Rightarrow> bool \<times> string \<times> string option" where
  \<comment> \<open>\<open>convert_xml_to_x12\<close>. \<open>xml_content\<close> is what reading the XML gives, and \<open>save_error\<close>
      the text of the exception that saving the X12 file raises, if it does. The third
      component stands for the stored X12 file, given by its text; it is \<open>None\<close> whenever
      the conversion failed.\<close>
  "convert_xml_to_x12 current_time xml_content save_error =
     (case xml_content of
        ReadFailed e \<Rightarrow> (False, ''X12 conversion error: '' @ e, None)
      | ReadOk src \<Rightarrow>
          (case convert_xml_to_x12_content current_time src of
             None \<Rightarrow> (False, ''No X12 content generated'', None)
           | Some x12_content \<Rightarrow>
               if x12_content = [] then (False, ''No X12 content generated'', None)
               else (case save_error of
                       Some e \<Rightarrow> (False, ''X12 conversion error: '' @ e, None)
                     | None \<Rightarrow> (True, ''X12 conversion completed successfully'', Some x12_content))))"

section \<open>The correction advisor\<close>

function py_replace :: "string \<Rightarrow> string \<Rightarrow> string \<Rightarrow> string" where
  \<comment> \<open>\<open>s.replace(old, new)\<close> for a non-empty \<open>old\<close>, which is all the source uses.\<close>
  "py_replace old new [] = []"
| "py_replace old new (c # cs) =
     (if old \<noteq> [] \<and> startswith (c # cs) old
      then new @ py_replace old new (drop (length old) (c # cs))
      else c # py_replace old new cs)"
  by pat_completeness auto
termination
  by (relation "measure (\<lambda>(old, new, s). length s)") auto

text \<open>
  The language model is an input: what the completion holds for a prompt, \<open>None\<close> when
  the call raises. The prompt is given by the values the source writes into it.
\<close>

definition auto_correct_xml_with_ai ::
  "(string \<Rightarrow> bool \<Rightarrow> string option) \<Rightarrow> string \<Rightarrow> bool \<Rightarrow> bool \<times> string" where
  "auto_correct_xml_with_ai llm xml_content strict_validation =
     (case llm xml_content strict_validation of
        None \<Rightarrow> (False, xml_content)
      | Some content \<Rightarrow>
          (let corrected_xml = py_replace ''```'' [] (py_replace ''```xml'' [] (strip content))
           in if corrected_xml \<noteq> [] \<and> corrected_xml \<noteq> xml_content then (True, corrected_xml)
              else (False, xml_content)))"

definition fix_line :: "string \<Rightarrow> string" where
  \<comment> \<open>The safety net applied to each piece of the answer: sender and receiver ids of an ISA
      segment padded or cut to 15 characters, \<open>N1*SU*\<close> rewritten to \<open>N1*SE*\<close>.\<close>
  "fix_line line =
     (if startswith line ''ISA*''
      then (let parts = split_on CHR ''*'' line;
                parts = (if 6 < length parts then parts[6 := take 15 (ljust 15 (parts ! 6))] else parts);
                parts = (if 8 < length parts then parts[8 := take 15 (ljust 15 (parts ! 8))] else parts)
            in join ''*'' parts)
      else if startswith line ''N1*SU*'' then py_replace ''N1*SU*'' ''N1*SE*'' line
      else line)"

definition auto_fix_edi_with_ai ::
  "(string \<Rightarrow> string \<Rightarrow> string \<Rightarrow> string option) \<Rightarrow> string \<Rightarrow> string \<Rightarrow> string list \<Rightarrow>
   bool \<times> string" where
  \<comment> \<open>\<open>edi_errors\<close> holds the messages of the structured errors, all of type \<open>FORMAT_ERROR\<close>.\<close>
  "auto_fix_edi_with_ai llm xml_content edi_content edi_errors =
     (let formatted_errors = join [CHR 0x0A] (map (\<lambda>m. ''- FORMAT_ERROR: '' @ m) edi_errors)
      in case llm xml_content edi_content formatted_errors of
           None \<Rightarrow> (False, edi_content)
         | Some content \<Rightarrow>
             (let corrected_edi = py_replace ''``'' [] (py_replace ''```'' [] (py_replace ''```edi'' [] (strip content)));
                  corrected_edi = join ''~'' (map fix_line (split_on CHR ''~'' corrected_edi))
              in if corrected_edi \<noteq> [] \<and> corrected_edi \<noteq> edi_content then (True, corrected_edi)
                 else (False, edi_content)))"

section \<open>The pipeline\<close>

datatype stage = XmlValidation | EdiConversion | EdiFormatValidation

text \<open>
  How a request ends: HTTP 400, HTTP 201 with a success record, HTTP 200 with a failure
  record for a stage, or HTTP 500 after an unexpected exception.
\<close>

datatype outcome = BadRequest | Succeeded | Failed stage | InternalError

text \<open>What the pipeline does to a submission, in order, with the result of each validation.\<close>

datatype event =
  XmlValidated bool | XmlAdvisorCalled | XmlRevalidated bool
  | Converted bool
  | EdiValidated bool | EdiAdvisorCalled | EdiRevalidated bool
  | FailureSaved stage | SuccessSaved

text \<open>
  Everything outside the core that a run depends on: the upload; what the XML validator
  finds at the path where a text was stored; the clock; the two language-model calls; and
  the outcome of each storage and database operation on the way (a failed one raises).
  Of the two correction blocks a run enters at most one, so that \<open>advisor_read\<close> and
  \<open>corrected_saved\<close> stand for the operations of whichever block is entered: reading the
  stored files back for the advisor, and storing the text it returned.
\<close>

record world =
  content_type :: string
  filename :: string
  uploaded :: string
  parse_xml :: "string \<Rightarrow> xml_source"
  clock :: timestamp
  llm_xml :: "string \<Rightarrow> bool \<Rightarrow> string option"
  llm_edi :: "string \<Rightarrow> string \<Rightarrow> string \<Rightarrow> string option"
  upload_saved :: bool
  advisor_read :: bool
  corrected_saved :: bool
  conversion_read_error :: "string option"
  conversion_save_error :: "string option"
  read_edi :: "string \<Rightarrow> edi_source"
  db_ok :: bool

definition xml_correction :: "world \<Rightarrow> bool \<Rightarrow> event list \<times> bool" where
  \<comment> \<open>The \<open>try\<close> block after a failed XML validation: the events, and \<open>xml_valid\<close> after it.
      Any exception inside is caught and leaves \<open>xml_valid\<close> false.\<close>
  "xml_correction w strict_validation =
     (if \<not> advisor_read w then ([], False)
      else (case auto_correct_xml_with_ai (llm_xml w) (uploaded w) strict_validation of
              (was_corrected, corrected_xml) \<Rightarrow>
                if was_corrected
                then (if \<not> corrected_saved w then ([XmlAdvisorCalled], False)
                      else (let xml_valid = fst (validate_xml (parse_xml w corrected_xml) strict_validation)
                            in ([XmlAdvisorCalled, XmlRevalidated xml_valid], xml_valid)))
                else ([XmlAdvisorCalled], False)))"

definition segment_names :: "string list" where
  "segment_names =
     [''ISA_SEGMENT'', ''GS_SEGMENT'', ''ST_SEGMENT'', ''BIG_SEGMENT'', ''N1_SEGMENTS'', ''IT1_SEGMENT'',
      ''TDS_SEGMENT'', ''TRAILER_SEGMENTS'']"

definition edi_format_errors :: "string \<Rightarrow> validation_results option \<Rightarrow> string list" where
  \<comment> \<open>The messages of the errors collected after a failed EDI format validation.\<close>
  "edi_format_errors edi_format_message details =
     (case details of
        Some results \<Rightarrow>
          concat (map (\<lambda>(segment_name, segment_data).
                         if \<not> valid segment_data \<and> errors segment_data \<noteq> []
                         then map (\<lambda>e. segment_name @ '': '' @ e) (errors segment_data) else [])
                      (zip segment_names (results_list results)))
      | None \<Rightarrow> [edi_format_message])"

definition edi_correction :: "world \<Rightarrow> string \<Rightarrow> string list \<Rightarrow> event list \<times> bool" where
  \<comment> \<open>The \<open>try\<close> block after a failed EDI format validation: the events, and
      \<open>edi_format_valid\<close> after it. \<open>edi_content\<close> is the text the conversion stored.\<close>
  "edi_correction w edi_content errs =
     (if \<not> advisor_read w then ([], False)
      else (case auto_fix_edi_with_ai (llm_edi w) (uploaded w) edi_content errs of
              (was_fixed, corrected_edi) \<Rightarrow>
                if was_fixed
                then (if \<not> corrected_saved w then ([EdiAdvisorCalled], False)
                      else (let retry = fst (validate_edi_format (read_edi w corrected_edi))
                            in ([EdiAdvisorCalled, EdiRevalidated retry], retry)))
                else ([EdiAdvisorCalled], False)))"

definition finish :: "world \<Rightarrow> event list \<Rightarrow> event \<Rightarrow> outcome \<Rightarrow> event list \<times> outcome" where
  \<comment> \<open>The record of the outcome is written and the response returned, unless the database
      raises.\<close>
  "finish w tr saved out = (if db_ok w then (tr @ [saved], out) else (tr, InternalError))"

definition edi_stage :: "world \<Rightarrow> event list \<Rightarrow> string \<Rightarrow> event list \<times> outcome" where
  \<comment> \<open>Step 4 and step 5, after a conversion that produced \<open>edi_content\<close>.\<close>
  "edi_stage w tr edi_content =
     (case validate_edi_format (read_edi w edi_content) of
        (edi_format_valid, edi_format_message, edi_format_details) \<Rightarrow>
          if \<not> edi_format_valid
          then (case edi_correction w edi_content (edi_format_errors edi_format_message edi_format_details) of
                  (evs, valid_after) \<Rightarrow>
                    if \<not> valid_after
                    then finish w (tr @ [EdiValidated False] @ evs) (FailureSaved EdiFormatValidation)
                           (Failed EdiFormatValidation)
                    else finish w (tr @ [EdiValidated False] @ evs) SuccessSaved Succeeded)
          else finish w (tr @ [EdiValidated True]) SuccessSaved Succeeded)"

definition conversion_stage :: "world \<Rightarrow> event list \<Rightarrow> event list \<times> outcome" where
  \<comment> \<open>Step 3. After a failed conversion the path of the X12 file is \<open>None\<close>, and building a
      \<open>Path\<close> from it raises before the advisor is reached.\<close>
  "conversion_stage w tr =
     (case convert_xml_to_x12 (clock w)
             (case conversion_read_error w of
                Some e \<Rightarrow> ReadFailed e | None \<Rightarrow> ReadOk (parse_xml w (uploaded w)))
             (conversion_save_error w) of
        (edi_success, edi_message, x12) \<Rightarrow>
          (case x12 of
             Some edi_content \<Rightarrow>
               if edi_success then edi_stage w (tr @ [Converted True]) edi_content
               else (tr @ [Converted False], InternalError)
           | None \<Rightarrow> (tr @ [Converted False], InternalError)))"

definition process_invoice_internal :: "world \<Rightarrow> bool \<Rightarrow> event list \<times> outcome" where
  \<comment> \<open>\<open>_process_invoice_internal\<close>: the events of one submission and how it ends.\<close>
  "process_invoice_internal w strict_validation =
     (if content_type w \<noteq> ''text/xml'' \<or> filename w = [] then ([], BadRequest)
      else if \<not> upload_saved w then ([], InternalError)
      else (case validate_xml (parse_xml w (uploaded w)) strict_validation of
              (xml_valid, xml_message, xml_warnings) \<Rightarrow>
                if \<not> xml_valid
                then (case xml_correction w strict_validation of
                        (evs, valid_after) \<Rightarrow>
                          if \<not> valid_after
                          then finish w ([XmlValidated False] @ evs) (FailureSaved XmlValidation)
                                 (Failed XmlValidation)
                          else ([XmlValidated False] @ evs, InternalError))
                else conversion_stage w [XmlValidated True]))"

definition is_xml_revalidation :: "event \<Rightarrow> bool" where
  "is_xml_revalidation ev = (case ev of XmlRevalidated _ \<Rightarrow> True | _ \<Rightarrow> False)"

definition is_edi_revalidation :: "event \<Rightarrow> bool" where
  "is_edi_revalidation ev = (case ev of EdiRevalidated _ \<Rightarrow> True | _ \<Rightarrow> False)"

section \<open>Sample documents\<close>

text \<open>A small UBL invoice with every element the validator looks for, and variants of it.\<close>

definition leaf :: "string \<Rightarrow> string \<Rightarrow> elem" where
  \<comment> \<open>\<open><t>txt</t>\<close>\<close>
  "leaf t txt = Elem t [] (Some txt) []"

definition party_elem :: "string \<Rightarrow> string \<Rightarrow> elem" where
  "party_elem ident nm =
     Elem ''cac:Party'' [] None
       [Elem ''cbc:EndpointID'' [(''schemeID'', ''0088'')] (Some ident) [],
        Elem ''cac:PartyName'' [] None [leaf ''cbc:Name'' nm]]"

definition invoice_line :: "string \<Rightarrow> elem" where
  "invoice_line line_id =
     Elem ''cac:InvoiceLine'' [] None
       [leaf ''cbc:ID'' line_id, leaf ''cbc:InvoicedQuantity'' ''2'',
        Elem ''cac:Price'' [] None [leaf ''cbc:PriceAmount'' ''50.00'']]"

definition invoice_head :: "elem list" where
  "invoice_head =
     [leaf ''cbc:ID'' ''INV001'', leaf ''cbc:IssueDate'' ''2024-03-15'',
      Elem ''cac:OrderReference'' [] None [leaf ''cbc:ID'' ''PO1234''],
      Elem ''cac:OriginatorDocumentReference'' [] None [leaf ''cbc:ID'' ''D77''],
      Elem ''cac:AccountingSupplierParty'' [] None [party_elem ''AU123'' ''Acme''],
      Elem ''cac:AccountingCustomerParty'' [] None [party_elem ''AU456'' ''Buyer''],
      Elem ''cac:LegalMonetaryTotal'' [] None [leaf ''cbc:PayableAmount'' ''100.00'']]"

definition sample_invoice :: elem where
  "sample_invoice = Elem ''Invoice'' [] None (invoice_head @ [invoice_line ''1''])"

definition lettered_line_invoice :: elem where
  \<comment> \<open>The id of the only line is not a number.\<close>
  "lettered_line_invoice = Elem ''Invoice'' [] None (invoice_head @ [invoice_line ''A1''])"

definition unnumbered_line :: elem where
  \<comment> \<open>An invoice line without an id element.\<close>
  "unnumbered_line =
     Elem ''cac:InvoiceLine'' [] None
       [leaf ''cbc:InvoicedQuantity'' ''2'', Elem ''cac:Price'' [] None [leaf ''cbc:PriceAmount'' ''50.00'']]"

definition unnumbered_line_invoice :: elem where
  "unnumbered_line_invoice = Elem ''Invoice'' [] None (invoice_head @ [unnumbered_line])"


definition empty_invoice :: elem where
  \<comment> \<open>A well-formed document with none of the UBL elements.\<close>
  "empty_invoice = Elem ''Invoice'' [] None []"

definition sample_x12 :: "string list" where
  \<comment> \<open>The segments of \<open>sample_invoice\<close> converted at \<open>sample_time\<close>.\<close>
  "sample_x12 =
     [''ISA*00*          *00*          *12*AU123          *12*AU456          *250109*0805*U*00401*000000000*0*P*>~'',
      ''GS*IN*AU123*AU456*20250109*0805*000000*X*004010~'', ''ST*810*0000~'',
      ''BIG*20240315*INV001~'', ''N1*SU*Acme*12*AU123~'', ''N1*BY*Buyer*12*AU456~'',
      ''IT1*1*2*EA*5000*CP*VP*~'', ''TDS*10000~'', ''CTT*1*1~'', ''SE*8*0000~'',
      ''GE*1*000000~'', ''IEA*1*000000000~'']"

definition sample_edi :: string where
  \<comment> \<open>The EDI text of \<open>sample_invoice\<close>: its segments joined by newlines.\<close>
  "sample_edi = join [CHR 0x0A] sample_x12"

definition sample_time :: timestamp where
  "sample_time = \<lparr> ts_year = 2025, ts_month = 1, ts_day = 9, ts_hour = 8, ts_minute = 5 \<rparr>"

definition starred_party :: party_info where
  \<comment> \<open>A party whose endpoint id holds the element separator.\<close>
  "starred_party = \<lparr> party_name = ''Acme'', party_id = ljust 15 ''A*B'', party_qualifier = ''ZZ'' \<rparr>"

definition plain_party :: party_info where
  "plain_party = \<lparr> party_name = ''Buyer'', party_id = ljust 15 ''AU456'', party_qualifier = ''12'' \<rparr>"

definition zero_control :: control_numbers where
  "zero_control =
     \<lparr> interchange_control = ''000000000'', group_control = ''000000'', transaction_control = ''0000'' \<rparr>"

definition silent_world :: "elem \<Rightarrow> world" where
  \<comment> \<open>A run in which the stored XML parses to \<open>doc\<close>, every storage and database operation
      succeeds, and the language model cannot be reached.\<close>
  "silent_world doc =
     \<lparr> content_type = ''text/xml'', filename = ''invoice.xml'', uploaded = ''<Invoice/>'',
       parse_xml = (\<lambda>_. WellFormed doc), clock = sample_time,
       llm_xml = (\<lambda>_ _. None), llm_edi = (\<lambda>_ _ _. None),
       upload_saved = True, advisor_read = True, corrected_saved = True,
       conversion_read_error = None, conversion_save_error = None, read_edi = EdiText,
       db_ok = True \<rparr>"

section \<open>Properties\<close>

subsection \<open>Splitting and joining\<close>

lemma split_on_no_sep: "c \<notin> set s \<Longrightarrow> split_on c s = [s]"
  by (induction s) auto

lemma split_on_append_sep: "c \<notin> set x \<Longrightarrow> split_on c (x @ c # r) = x # split_on c r"
  by (induction x) auto

lemma split_on_join:
  "xs \<noteq> [] \<Longrightarrow> \<forall>x\<in>set xs. c \<notin> set x \<Longrightarrow> split_on c (join [c] xs) = xs"
proof (induction "[c]" xs rule: join.induct)
  case 1
  then show ?case by simp
next
  case (2 x)
  then show ?case by (simp add: split_on_no_sep)
next
  case (3 x y ys)
  then show ?case by (simp add: split_on_append_sep)
qed

lemma join_snoc: "xs \<noteq> [] \<Longrightarrow> join sep xs @ t = join sep (butlast xs @ [last xs @ t])"
  by (induction sep xs rule: join.induct) auto

subsection \<open>Digits\<close>

lemma is_digit_char_of: "k < 10 \<Longrightarrow> is_digit (char_of (48 + k :: nat))"
  by (simp add: is_digit_def)

lemma digits_of_digits: "\<forall>c\<in>set (digits_of n). is_digit c"
proof (induction n rule: digits_of.induct)
  case (1 n)
  show ?case
  proof (cases "n < 10")
    case True
    then have "nat n < 10" by simp
    then show ?thesis using True by (subst digits_of.simps) (simp add: is_digit_char_of)
  next
    case False
    then have "nat (n mod 10) < 10" by simp
    then show ?thesis using False 1 by (subst digits_of.simps) (simp add: is_digit_char_of)
  qed
qed

lemma digits_of_0: "digits_of 0 = ''0''"
  by code_simp

lemma zfill_set: "set (zfill w s) \<subseteq> insert CHR ''0'' (set s)"
  by (auto simp: zfill_def split: list.splits if_splits)

lemma not_digit_star: "\<not> is_digit CHR ''*''"
  by (simp add: is_digit_def)

lemma pad2_no_star: "CHR ''*'' \<notin> set (pad2 n)"
proof
  assume "CHR ''*'' \<in> set (pad2 n)"
  then have "CHR ''*'' \<in> insert CHR ''0'' (set (str_nat n))"
    using zfill_set unfolding pad2_def by blast
  then show False using digits_of_digits[of "int n"] not_digit_star by (auto simp: str_nat_def)
qed

lemma ljust_no_star: "CHR ''*'' \<notin> set s \<Longrightarrow> CHR ''*'' \<notin> set (ljust w (take k s))"
  by (auto simp: ljust_def dest: in_set_takeD)

lemma zfill_no_star: "CHR ''*'' \<notin> set s \<Longrightarrow> CHR ''*'' \<notin> set (zfill w s)"
  using zfill_set by fastforce

lemma is_digit_not_space: "is_digit c \<Longrightarrow> \<not> py_isspace c"
  by (auto simp: is_digit_def py_isspace_def Let_def)

lemma lstrip_id: "s \<noteq> [] \<Longrightarrow> \<not> py_isspace (hd s) \<Longrightarrow> lstrip s = s"
  by (cases s) (auto simp: lstrip_def)

lemma rstrip_id: "s \<noteq> [] \<Longrightarrow> \<not> py_isspace (last s) \<Longrightarrow> rstrip s = s"
  by (cases s rule: rev_cases) (auto simp: rstrip_def)

lemma strip_digits: "s \<noteq> [] \<Longrightarrow> \<forall>c\<in>set s. is_digit c \<Longrightarrow> strip s = s"
  by (simp add: strip_def lstrip_id rstrip_id is_digit_not_space)

lemma is_digit_not_c_space: "is_digit c \<Longrightarrow> \<not> c_isspace c"
  by (auto simp: is_digit_def c_isspace_def Let_def)

lemma literal_strip_digits: "s \<noteq> [] \<Longrightarrow> \<forall>c\<in>set s. is_digit c \<Longrightarrow> literal_strip s = s"
proof -
  assume s: "s \<noteq> []" and d: "\<forall>c\<in>set s. is_digit c"
  have "\<not> c_isspace (hd s)" using s d by (cases s) (auto simp: is_digit_not_c_space)
  then have a: "dropWhile c_isspace s = s" using s by (cases s) auto
  have "\<not> c_isspace (last s)" using s d by (simp add: is_digit_not_c_space)
  then have "dropWhile c_isspace (rev s) = rev s" using s by (cases s rule: rev_cases) auto
  then show ?thesis using a by (simp add: literal_strip_def)
qed

lemma take_sign_digit: "s \<noteq> [] \<Longrightarrow> is_digit (hd s) \<Longrightarrow> take_sign s = (False, s)"
  by (cases s) (auto simp: take_sign_def is_digit_def)

lemma digitpart_tail_digits: "\<forall>c\<in>set s. is_digit c \<Longrightarrow> digitpart_tail s = (s, [])"
  by (induction s rule: digitpart_tail.induct) auto

lemma digitpart_digits: "s \<noteq> [] \<Longrightarrow> \<forall>c\<in>set s. is_digit c \<Longrightarrow> digitpart s = Some (s, [])"
  by (cases s) (auto simp: digitpart_def digitpart_tail_digits)

lemma py_int_digits:
  assumes "s \<noteq> []" "\<forall>c\<in>set s. is_digit c" "length s \<le> max_str_digits"
  shows "py_int s = Some (int_of_digits s)"
proof -
  have "is_digit (hd s)" using assms by (cases s) auto
  then show ?thesis using assms
    by (simp add: py_int_def literal_strip_digits take_sign_digit digitpart_digits)
qed

lemma py_int_slice:
  assumes "\<forall>c\<in>set d. is_digit c" "length d = 8" "0 < n" "n \<le> 4" "k + n \<le> 8"
  shows "py_int (take n (drop k d)) = Some (int_of_digits (take n (drop k d)))"
proof (rule py_int_digits)
  show "take n (drop k d) \<noteq> []" using assms by auto
  show "\<forall>c\<in>set (take n (drop k d)). is_digit c"
    using assms(1) by (meson in_set_dropD in_set_takeD)
  show "length (take n (drop k d)) \<le> max_str_digits" using assms by (simp add: max_str_digits_def)
qed

subsection \<open>The shape of the segment list\<close>

lemma hash_total_sum:
  "hash_total ls = Some h \<Longrightarrow> \<exists>ids. map line_id_value ls = map Some ids \<and> h = sum_list ids"
proof (induction ls arbitrary: h)
  case Nil
  then show ?case by simp
next
  case (Cons l ls)
  from Cons.prems obtain v t where v: "line_id_value l = Some v" and t: "hash_total ls = Some t"
    and h: "h = v + t"
    by (auto simp: bind_eq_Some_conv)
  from Cons.IH[OF t] obtain ids where "map line_id_value ls = map Some ids" "t = sum_list ids" by blast
  then have "map line_id_value (l # ls) = map Some (v # ids) \<and> h = sum_list (v # ids)"
    using v h by simp
  then show ?case by blast
qed

lemma not_startswith_isa: "\<not> startswith (create_ISA_segment s c cn t) ''ST''"
  by (simp add: startswith_def create_ISA_segment_def isa_elements_def)

lemma not_startswith_gs: "\<not> startswith (gs_segment s c cn t) ''ST''"
  by (simp add: startswith_def gs_segment_def)

lemma startswith_st: "startswith (st_segment cn) ''ST''"
  by (simp add: startswith_def st_segment_def)

lemma first_index_st:
  "first_index (\<lambda>seg. startswith seg ''ST'')
     (create_ISA_segment s c cn t # gs_segment s c cn t # st_segment cn # rest) = Some 2"
  by (simp add: not_startswith_isa not_startswith_gs startswith_st)

lemma x12_segments_shape:
  assumes "x12_segments now doc = Some segs"
  obtains control big detail ctt where
    "X12ControlNumbers doc = Some control"
    "big_segment doc = Some big"
    "detail_segments doc (default_sender (extract_party_info doc supplier_path))
       (default_receiver (extract_party_info doc customer_path)) = Some detail"
    "ctt_segment (findall doc [Desc ''cac:InvoiceLine'']) = Some ctt"
    "segs = [create_ISA_segment (default_sender (extract_party_info doc supplier_path))
               (default_receiver (extract_party_info doc customer_path)) control now,
             gs_segment (default_sender (extract_party_info doc supplier_path))
               (default_receiver (extract_party_info doc customer_path)) control now,
             st_segment control, big] @ detail @
            [ctt, ''SE*'' @ str_nat (length detail + 5 - 2 + 1) @ ''*'' @ transaction_control control @ ''~'',
             ''GE*1*'' @ group_control control @ ''~'',
             ''IEA*1*'' @ interchange_control control @ ''~'']"
proof -
  let ?s = "default_sender (extract_party_info doc supplier_path)"
  let ?c = "default_receiver (extract_party_info doc customer_path)"
  from assms obtain control big detail ctt se where
    c: "X12ControlNumbers doc = Some control" and b: "big_segment doc = Some big"
    and d: "detail_segments doc ?s ?c = Some detail"
    and t: "ctt_segment (findall doc [Desc ''cac:InvoiceLine'']) = Some ctt"
    and se: "se_segment ([create_ISA_segment ?s ?c control now, gs_segment ?s ?c control now,
                          st_segment control, big] @ detail @ [ctt]) control = Some se"
    and segs: "segs = ([create_ISA_segment ?s ?c control now, gs_segment ?s ?c control now,
                          st_segment control, big] @ detail @ [ctt]) @
                      [se, ''GE*1*'' @ group_control control @ ''~'',
                       ''IEA*1*'' @ interchange_control control @ ''~'']"
    unfolding x12_segments_def Let_def by (auto simp: bind_eq_Some_conv)
  have "se = ''SE*'' @ str_nat (length detail + 5 - 2 + 1) @ ''*'' @ transaction_control control @ ''~''"
    using se first_index_st[of ?s ?c control now "big # detail @ [ctt]"]
    unfolding se_segment_def by (auto simp: bind_eq_Some_conv eval_nat_numeral)
  with c b d t segs show thesis by (intro that) auto
qed

lemma hash_total_None: "l \<in> set ls \<Longrightarrow> line_id_value l = None \<Longrightarrow> hash_total ls = None"
proof (induction ls)
  case Nil
  then show ?case by simp
next
  case (Cons a ls)
  show ?case
  proof (cases "line_id_value a")
    case None
    then show ?thesis by simp
  next
    case (Some v)
    then have "l \<in> set ls" using Cons.prems by auto
    then have "hash_total ls = None" using Cons.IH Cons.prems(2) by simp
    then show ?thesis by (simp add: Some)
  qed
qed

text \<open>
  When the conversion succeeds, every invoice line has an id that \<open>int\<close> reads, and the
  fourth segment from the end is \<open>CTT*<number of invoice lines>*<sum of the ids>~\<close>; with
  no invoice line it is \<open>CTT*0*0~\<close>.
\<close>

lemma ctt_counts_and_sums_line_ids:
  assumes "x12_segments now doc = Some segs"
  shows "(\<exists>ids. map line_id_value (findall doc [Desc ''cac:InvoiceLine'']) = map Some ids \<and>
           segs ! (length segs - 4) =
             ''CTT*'' @ str_nat (length (findall doc [Desc ''cac:InvoiceLine''])) @ ''*'' @
             str_int (sum_list ids) @ ''~'') \<and>
         (findall doc [Desc ''cac:InvoiceLine''] = [] \<longrightarrow> segs ! (length segs - 4) = ''CTT*0*0~'')"
proof -
  let ?lines = "findall doc [Desc ''cac:InvoiceLine'']"
  from x12_segments_shape[OF assms] obtain control big detail ctt where
    ctt: "ctt_segment ?lines = Some ctt" and
    segs: "segs = [create_ISA_segment (default_sender (extract_party_info doc supplier_path))
               (default_receiver (extract_party_info doc customer_path)) control now,
             gs_segment (default_sender (extract_party_info doc supplier_path))
               (default_receiver (extract_party_info doc customer_path)) control now,
             st_segment control, big] @ detail @
            [ctt, ''SE*'' @ str_nat (length detail + 5 - 2 + 1) @ ''*'' @ transaction_control control @ ''~'',
             ''GE*1*'' @ group_control control @ ''~'',
             ''IEA*1*'' @ interchange_control control @ ''~'']" by metis
  have len: "length segs = length detail + 8" unfolding segs by simp
  have idx: "segs ! (length segs - 4) = ctt"
    unfolding len unfolding segs by (simp add: nth_append)
  from ctt obtain h where h: "hash_total ?lines = Some h"
    and c: "ctt = ''CTT*'' @ str_nat (length ?lines) @ ''*'' @ str_int h @ ''~''"
    unfolding ctt_segment_def py_str_int_def by (auto simp: bind_eq_Some_conv split: if_splits)
  from hash_total_sum[OF h] obtain ids where ids: "map line_id_value ?lines = map Some ids" "h = sum_list ids"
    by blast
  have first: "\<exists>ids. map line_id_value ?lines = map Some ids \<and>
           segs ! (length segs - 4) =
             ''CTT*'' @ str_nat (length ?lines) @ ''*'' @ str_int (sum_list ids) @ ''~''"
    using idx c ids by blast
  have second: "?lines = [] \<longrightarrow> segs ! (length segs - 4) = ''CTT*0*0~''"
  proof
    assume e: "?lines = []"
    then have "h = 0" using h by simp
    then show "segs ! (length segs - 4) = ''CTT*0*0~''"
      using idx c e by (simp add: str_nat_def str_int_def digits_of_0)
  qed
  show ?thesis using first second by blast
qed

subsection \<open>Segments of the joined text\<close>

lemma split_on_nonempty: "split_on c s \<noteq> []"
  by (induction s) (auto split: list.splits)

lemma split_on_append: "split_on c (a @ c # b) = split_on c a @ split_on c b"
proof (induction a)
  case Nil
  then show ?case by simp
next
  case (Cons x xs)
  obtain p ps where ps: "split_on c xs = p # ps" using split_on_nonempty[of c xs] by (cases "split_on c xs") auto
  show ?case using Cons ps by simp
qed

lemma split_on_hd: "\<exists>ps. split_on c b = takeWhile (\<lambda>x. x \<noteq> c) b # ps"
proof (induction b)
  case Nil
  then show ?case by simp
next
  case (Cons x xs)
  then show ?case by (cases "x = c") auto
qed

lemma rstrip_append_keep:
  assumes "x \<noteq> []" "\<not> py_isspace (last x)"
  shows "rstrip (x @ z) = x @ rstrip z"
proof -
  obtain l y where x: "x = l @ [y]" using assms(1) by (cases x rule: rev_cases) auto
  then have ny: "\<not> py_isspace y" using assms(2) by simp
  have dw: "dropWhile py_isspace (rev x) = rev x" using x ny by simp
  show ?thesis
  proof (cases "\<forall>c\<in>set (rev z). py_isspace c")
    case True
    then have "dropWhile py_isspace (rev z) = []" by simp
    then show ?thesis using True dw unfolding rstrip_def by (simp add: dropWhile_append)
  next
    case False
    then show ?thesis unfolding rstrip_def by (auto simp: dropWhile_append)
  qed
qed

lemma strip_n1_su:
  "strip (CHR 0x0A # ''N1*SU*'' @ z) = ''N1*SU*'' @ rstrip z"
proof -
  have sp: "py_isspace (CHR 0x0A)" by (simp add: py_isspace_def)
  have nsp: "\<not> py_isspace CHR ''N''" "\<not> py_isspace CHR ''*''" by (simp_all add: py_isspace_def)
  have "lstrip (CHR 0x0A # ''N1*SU*'' @ z) = ''N1*SU*'' @ z"
    using sp nsp by (simp add: lstrip_def)
  moreover have "rstrip (''N1*SU*'' @ z) = ''N1*SU*'' @ rstrip z"
    by (rule rstrip_append_keep) (simp_all add: nsp)
  ultimately show ?thesis by (simp add: strip_def)
qed

lemma edi_segments_has_n1_su:
  "\<exists>y. ''N1*SU*'' @ y \<in> set (edi_segments (a @ ''~'' @ [CHR 0x0A] @ ''N1*SU*'' @ r))"
proof -
  let ?b = "CHR 0x0A # ''N1*SU*'' @ r"
  obtain ps where ps: "split_on CHR ''~'' ?b = takeWhile (\<lambda>x. x \<noteq> CHR ''~'') ?b # ps"
    using split_on_hd by blast
  have tw: "takeWhile (\<lambda>x. x \<noteq> CHR ''~'') ?b = CHR 0x0A # ''N1*SU*'' @ takeWhile (\<lambda>x. x \<noteq> CHR ''~'') r"
    by simp
  have "split_on CHR ''~'' (a @ ''~'' @ [CHR 0x0A] @ ''N1*SU*'' @ r) = split_on CHR ''~'' a @ split_on CHR ''~'' ?b"
    using split_on_append[of "CHR ''~''" a ?b] by simp
  then have "takeWhile (\<lambda>x. x \<noteq> CHR ''~'') ?b \<in> set (split_on CHR ''~'' (a @ ''~'' @ [CHR 0x0A] @ ''N1*SU*'' @ r))"
    using ps by simp
  then have "strip (takeWhile (\<lambda>x. x \<noteq> CHR ''~'') ?b) \<in> set (map strip (split_on CHR ''~'' (a @ ''~'' @ [CHR 0x0A] @ ''N1*SU*'' @ r)))"
    by simp
  moreover have "strip (takeWhile (\<lambda>x. x \<noteq> CHR ''~'') ?b) = ''N1*SU*'' @ rstrip (takeWhile (\<lambda>x. x \<noteq> CHR ''~'') r)"
    unfolding tw by (rule strip_n1_su)
  ultimately have "''N1*SU*'' @ rstrip (takeWhile (\<lambda>x. x \<noteq> CHR ''~'') r) \<in> set (edi_segments (a @ ''~'' @ [CHR 0x0A] @ ''N1*SU*'' @ r))"
    unfolding edi_segments_def by simp
  then show ?thesis by blast
qed

lemma n1_errors_su: "n1_errors i (''N1*SU*'' @ y) \<noteq> []"
proof -
  have "split_on CHR ''*'' (''N1'' @ CHR ''*'' # ''SU'' @ CHR ''*'' # y) = ''N1'' # ''SU'' # split_on CHR ''*'' y"
    by (subst split_on_append_sep, simp, subst split_on_append_sep, simp, simp)
  then have "split_on CHR ''*'' (''N1*SU*'' @ y) = ''N1'' # ''SU'' # split_on CHR ''*'' y" by simp
  then show ?thesis by (simp add: n1_errors_def Let_def)
qed

lemma in_set_enumerate_ex: "x \<in> set xs \<Longrightarrow> \<exists>i. (i, x) \<in> set (enumerate n xs)"
  by (induction xs arbitrary: n) auto

lemma validate_n1_su:
  assumes "''N1*SU*'' @ y \<in> set segments"
  shows "\<not> valid (validate_n1 segments)"
proof -
  let ?n1 = "filter (\<lambda>seg. startswith seg ''N1'') segments"
  have "startswith (''N1*SU*'' @ y) ''N1''" by (simp add: startswith_def)
  then have mem: "''N1*SU*'' @ y \<in> set ?n1" using assms by simp
  from in_set_enumerate_ex[OF mem, of 0] obtain i where i: "(i, ''N1*SU*'' @ y) \<in> set (enumerate 0 ?n1)"
    by blast
  have "concat (map (\<lambda>(i, n1_seg). n1_errors i n1_seg) (enumerate 0 ?n1)) \<noteq> []"
    using i n1_errors_su[of i y] by (force simp: concat_eq_Nil_conv)
  then show ?thesis by (simp add: validate_n1_def Let_def checked_def failed_def)
qed

lemma join_append_Cons:
  "pre \<noteq> [] \<Longrightarrow> join sep (pre @ x # post) = join sep pre @ sep @ join sep (x # post)"
  by (induction sep pre rule: join.induct) auto

lemma join_Cons_prefix: "\<exists>r. join sep (x # post) = x @ r"
  by (cases post) auto

lemma join_last: "pre \<noteq> [] \<Longrightarrow> \<exists>a. join sep pre = a @ last pre"
proof (induction sep pre rule: join.induct)
  case (3 sep x y ys)
  then obtain a where "join sep (y # ys) = a @ last (y # ys)" by auto
  then have "join sep (x # y # ys) = (x @ sep @ a) @ last (x # y # ys)" by simp
  then show ?case by blast
qed auto

lemma ends_tilde_big: "big_segment doc = Some big \<Longrightarrow> \<exists>u. big = u @ ''~''"
  unfolding big_segment_def by (auto simp: bind_eq_Some_conv)

lemma ends_tilde_optional: "s \<in> set (optional_header_segments doc) \<Longrightarrow> \<exists>u. s = u @ ''~''"
  unfolding optional_header_segments_def note_segments_def currency_segments_def
    contract_segments_def contact_segments_def
  by (auto split: option.splits if_splits)

lemma detail_segments_shape:
  assumes "detail_segments doc supplier customer = Some detail"
  shows "\<exists>post. detail = optional_header_segments doc @ n1_segment ''SU'' supplier # post"
  using assms unfolding detail_segments_def by (auto simp: bind_eq_Some_conv)

lemma sample_conversion: "x12_segments sample_time sample_invoice = Some sample_x12"
  by code_simp

lemma converted_text_fails_n1:
  assumes "convert_xml_to_x12_content now (WellFormed doc) = Some edi"
  shows "fst (validate_edi_format (EdiText edi)) = False \<and> \<not> valid (validate_n1 (edi_segments edi))"
proof -
  from assms obtain segs where segs: "x12_segments now doc = Some segs"
    and edi: "edi = join [CHR 0x0A] segs"
    unfolding convert_xml_to_x12_content_def by auto
  let ?s = "default_sender (extract_party_info doc supplier_path)"
  let ?c = "default_receiver (extract_party_info doc customer_path)"
  from x12_segments_shape[OF segs] obtain control big detail ctt where
    big: "big_segment doc = Some big" and
    detail: "detail_segments doc ?s ?c = Some detail" and
    shape: "segs = [create_ISA_segment ?s ?c control now, gs_segment ?s ?c control now,
             st_segment control, big] @ detail @
            [ctt, ''SE*'' @ str_nat (length detail + 5 - 2 + 1) @ ''*'' @ transaction_control control @ ''~'',
             ''GE*1*'' @ group_control control @ ''~'',
             ''IEA*1*'' @ interchange_control control @ ''~'']" by metis
  from detail_segments_shape[OF detail] obtain post where
    post: "detail = optional_header_segments doc @ n1_segment ''SU'' ?s # post" by blast
  define pre where "pre = [create_ISA_segment ?s ?c control now, gs_segment ?s ?c control now,
             st_segment control, big] @ optional_header_segments doc"
  define post' where "post' = post @
            [ctt, ''SE*'' @ str_nat (length detail + 5 - 2 + 1) @ ''*'' @ transaction_control control @ ''~'',
             ''GE*1*'' @ group_control control @ ''~'',
             ''IEA*1*'' @ interchange_control control @ ''~'']"
  have segs': "segs = pre @ n1_segment ''SU'' ?s # post'"
    unfolding shape post pre_def post'_def by simp
  have ne: "pre \<noteq> []" unfolding pre_def by simp
  have "last pre = big \<or> last pre \<in> set (optional_header_segments doc)"
    unfolding pre_def by (cases "optional_header_segments doc = []") (auto simp: last_append)
  then obtain u where u: "last pre = u @ ''~''"
    using ends_tilde_big[OF big] ends_tilde_optional by blast
  obtain a where a: "join [CHR 0x0A] pre = a @ last pre" using join_last[OF ne] by blast
  obtain r where r: "join [CHR 0x0A] (n1_segment ''SU'' ?s # post') = n1_segment ''SU'' ?s @ r"
    using join_Cons_prefix by blast
  have "edi = join [CHR 0x0A] pre @ [CHR 0x0A] @ join [CHR 0x0A] (n1_segment ''SU'' ?s # post')"
    unfolding edi segs' by (rule join_append_Cons[OF ne])
  then have "edi = (a @ u @ ''~'') @ [CHR 0x0A] @ (n1_segment ''SU'' ?s @ r)"
    using a u r by simp
  then have "edi = (a @ u) @ ''~'' @ [CHR 0x0A] @ ''N1*SU*'' @
          (party_name ?s @ ''*'' @ party_qualifier ?s @ ''*'' @ strip (party_id ?s) @ ''~'' @ r)"
    unfolding n1_segment_def by simp
  then obtain y where "''N1*SU*'' @ y \<in> set (edi_segments edi)"
    using edi_segments_has_n1_su by metis
  then have n1: "\<not> valid (validate_n1 (edi_segments edi))" by (rule validate_n1_su)
  then have "fst (validate_edi_format (EdiText edi)) = False"
    by (simp add: validate_edi_format_def Let_def validation_of_def results_list_def)
  with n1 show ?thesis by simp
qed


lemma empty_invoice_warnings: "perform_enhanced_xml_validation empty_invoice \<noteq> []"
  by code_simp

subsection \<open>The shapes of a run\<close>

lemma xml_correction_cases:
  assumes "xml_correction w s = (evs, v)"
  shows "(evs = [] \<and> \<not> v) \<or> (evs = [XmlAdvisorCalled] \<and> \<not> v) \<or> evs = [XmlAdvisorCalled, XmlRevalidated v]"
  using assms unfolding xml_correction_def
  by (auto simp: Let_def split: if_splits prod.splits)

lemma edi_correction_cases:
  assumes "edi_correction w edi errs = (evs, v)"
  shows "(evs = [] \<and> \<not> v) \<or> (evs = [EdiAdvisorCalled] \<and> \<not> v) \<or> evs = [EdiAdvisorCalled, EdiRevalidated v]"
  using assms unfolding edi_correction_def
  by (auto simp: Let_def split: if_splits prod.splits)

lemma one_shot_simps:
  "is_xml_revalidation (XmlRevalidated b)" "\<not> is_xml_revalidation (XmlValidated b)"
  "\<not> is_xml_revalidation XmlAdvisorCalled" "\<not> is_xml_revalidation (Converted b)"
  "\<not> is_xml_revalidation (EdiValidated b)" "\<not> is_xml_revalidation EdiAdvisorCalled"
  "\<not> is_xml_revalidation (EdiRevalidated b)" "\<not> is_xml_revalidation (FailureSaved st)"
  "\<not> is_xml_revalidation SuccessSaved"
  "is_edi_revalidation (EdiRevalidated b)" "\<not> is_edi_revalidation (XmlValidated b)"
  "\<not> is_edi_revalidation XmlAdvisorCalled" "\<not> is_edi_revalidation (Converted b)"
  "\<not> is_edi_revalidation (EdiValidated b)" "\<not> is_edi_revalidation EdiAdvisorCalled"
  "\<not> is_edi_revalidation (XmlRevalidated b)" "\<not> is_edi_revalidation (FailureSaved st)"
  "\<not> is_edi_revalidation SuccessSaved"
  by (simp_all add: is_xml_revalidation_def is_edi_revalidation_def)

lemma edi_stage_shapes:
  assumes "edi_stage w pre edi = (tr, out)"
  shows "(db_ok w \<and>
           (tr = pre @ [EdiValidated True, SuccessSaved] \<and> out = Succeeded \<or>
            tr = pre @ [EdiValidated False, FailureSaved EdiFormatValidation] \<and> out = Failed EdiFormatValidation \<or>
            tr = pre @ [EdiValidated False, EdiAdvisorCalled, FailureSaved EdiFormatValidation] \<and>
              out = Failed EdiFormatValidation \<or>
            tr = pre @ [EdiValidated False, EdiAdvisorCalled, EdiRevalidated False,
                        FailureSaved EdiFormatValidation] \<and> out = Failed EdiFormatValidation \<or>
            tr = pre @ [EdiValidated False, EdiAdvisorCalled, EdiRevalidated True, SuccessSaved] \<and>
              out = Succeeded)) \<or>
         (\<not> db_ok w \<and> out = InternalError \<and>
           (tr = pre @ [EdiValidated True] \<or> tr = pre @ [EdiValidated False] \<or>
            tr = pre @ [EdiValidated False, EdiAdvisorCalled] \<or>
            (\<exists>b. tr = pre @ [EdiValidated False, EdiAdvisorCalled, EdiRevalidated b])))"
proof -
  obtain ok msg det where v: "validate_edi_format (read_edi w edi) = (ok, msg, det)"
    by (cases "validate_edi_format (read_edi w edi)") auto
  obtain evs va where c: "edi_correction w edi (edi_format_errors msg det) = (evs, va)"
    by (cases "edi_correction w edi (edi_format_errors msg det)") auto
  show ?thesis
  proof (cases ok)
    case True
    then show ?thesis using assms by (auto simp: edi_stage_def v finish_def split: if_splits)
  next
    case False
    from edi_correction_cases[OF c] consider "evs = []" "\<not> va" | "evs = [EdiAdvisorCalled]" "\<not> va"
      | "evs = [EdiAdvisorCalled, EdiRevalidated va]" by blast
    then show ?thesis
    proof cases
      case 1
      then show ?thesis using assms False by (auto simp: edi_stage_def v c finish_def split: if_splits)
    next
      case 2
      then show ?thesis using assms False by (auto simp: edi_stage_def v c finish_def split: if_splits)
    next
      case 3
      then show ?thesis using assms False
        by (cases va) (auto simp: edi_stage_def v c finish_def split: if_splits)
    qed
  qed
qed


lemma process_shapes:
  assumes "process_invoice_internal w strict = (tr, out)"
  shows "(tr = [] \<and> (out = BadRequest \<or> out = InternalError)) \<or>
         (db_ok w \<and> out = Failed XmlValidation \<and>
           (tr = [XmlValidated False, FailureSaved XmlValidation] \<or>
            tr = [XmlValidated False, XmlAdvisorCalled, FailureSaved XmlValidation] \<or>
            tr = [XmlValidated False, XmlAdvisorCalled, XmlRevalidated False, FailureSaved XmlValidation])) \<or>
         (\<not> db_ok w \<and> out = InternalError \<and>
           (tr = [XmlValidated False] \<or> tr = [XmlValidated False, XmlAdvisorCalled] \<or>
            tr = [XmlValidated False, XmlAdvisorCalled, XmlRevalidated False])) \<or>
         (out = InternalError \<and> tr = [XmlValidated False, XmlAdvisorCalled, XmlRevalidated True]) \<or>
         (out = InternalError \<and> tr = [XmlValidated True, Converted False]) \<or>
         (\<exists>edi. edi_stage w [XmlValidated True, Converted True] edi = (tr, out))"
proof -
  obtain ok msg ws where v: "validate_xml (parse_xml w (uploaded w)) strict = (ok, msg, ws)"
    by (cases "validate_xml (parse_xml w (uploaded w)) strict") auto
  obtain evs va where c: "xml_correction w strict = (evs, va)" by (cases "xml_correction w strict") auto
  show ?thesis
  proof (cases "content_type w \<noteq> ''text/xml'' \<or> filename w = [] \<or> \<not> upload_saved w")
    case True
    then show ?thesis using assms unfolding process_invoice_internal_def
      by (auto split: if_splits)
  next
    case up: False
    show ?thesis
    proof (cases ok)
      case False
      from xml_correction_cases[OF c] consider "evs = []" "\<not> va" | "evs = [XmlAdvisorCalled]" "\<not> va"
        | "evs = [XmlAdvisorCalled, XmlRevalidated va]" by blast
      then show ?thesis
      proof cases
        case 1
        then show ?thesis using assms False up
          by (auto simp: process_invoice_internal_def v c finish_def split: if_splits)
      next
        case 2
        then show ?thesis using assms False up
          by (auto simp: process_invoice_internal_def v c finish_def split: if_splits)
      next
        case 3
        then show ?thesis using assms False up
          by (cases va) (auto simp: process_invoice_internal_def v c finish_def split: if_splits)
      qed
    next
      case True
      then have cs: "conversion_stage w [XmlValidated True] = (tr, out)"
        using assms up unfolding process_invoice_internal_def v by (auto split: if_splits)
      then show ?thesis
        unfolding conversion_stage_def by (auto split: prod.splits option.splits if_splits)
    qed
  qed
qed

subsection \<open>The claims\<close>

lemma length_ljust: "length (ljust w s) = max w (length s)"
  by (simp add: ljust_def)

lemma length_take_ljust: "length (take w (ljust w s)) = w"
  by (simp add: length_ljust)


text \<open>
  C5. In every list of segments the encoder produces, the first segment that starts with
  \<open>ST\<close> is the third one (index 2), the SE segment is the third from the end, and the
  count written into SE is the number of segments from ST through SE inclusive.
\<close>

theorem se_count_covers_st_through_se:
  assumes "x12_segments now doc = Some segs"
  shows "first_index (\<lambda>seg. startswith seg ''ST'') segs = Some 2 \<and>
         (\<exists>tc. segs ! (length segs - 3) =
                 ''SE*'' @ str_nat ((length segs - 3) - 2 + 1) @ ''*'' @ tc @ ''~'')"
proof -
  from x12_segments_shape[OF assms] obtain control big detail ctt where
    segs: "segs = [create_ISA_segment (default_sender (extract_party_info doc supplier_path))
               (default_receiver (extract_party_info doc customer_path)) control now,
             gs_segment (default_sender (extract_party_info doc supplier_path))
               (default_receiver (extract_party_info doc customer_path)) control now,
             st_segment control, big] @ detail @
            [ctt, ''SE*'' @ str_nat (length detail + 5 - 2 + 1) @ ''*'' @ transaction_control control @ ''~'',
             ''GE*1*'' @ group_control control @ ''~'',
             ''IEA*1*'' @ interchange_control control @ ''~'']" by metis
  have len: "length segs = length detail + 8" unfolding segs by simp
  have idx: "segs ! (length segs - 3) =
      ''SE*'' @ str_nat (length detail + 5 - 2 + 1) @ ''*'' @ transaction_control control @ ''~''"
    unfolding len unfolding segs by (simp add: nth_append)
  have "first_index (\<lambda>seg. startswith seg ''ST'') segs = Some 2"
    unfolding segs using first_index_st by simp
  moreover have "(length segs - 3) - 2 + 1 = length detail + 5 - 2 + 1" unfolding len by simp
  ultimately show ?thesis using idx by metis
qed

theorem se_count_witness:
  "x12_segments sample_time sample_invoice = Some sample_x12 \<and>
   first_index (\<lambda>seg. startswith seg ''ST'') sample_x12 = Some 2 \<and>
   length sample_x12 = 12 \<and> sample_x12 ! 9 = ''SE*8*0000~''"
proof -
  note h = sample_conversion
  have a: "first_index (\<lambda>seg. startswith seg ''ST'') sample_x12 = Some 2"
    using se_count_covers_st_through_se[OF h] by blast
  have b: "length sample_x12 = 12 \<and> sample_x12 ! 9 = ''SE*8*0000~''"
    by (simp add: sample_x12_def)
  show ?thesis using h a b by simp
qed

text \<open>
  C4. The claim is that a line whose id is not a number, or is missing, adds 0 to the hash
  total of the CTT segment. The code gives this default to the empty text only
  (\<open>or "0"\<close>): for a line without an id element, with an id element without text, or with
  an id that \<open>int\<close> does not read once its leading zeros are stripped, the sum raises, and
  \<open>_convert_xml_to_x12_content\<close> returns \<open>None\<close>: there is no CTT segment and no document.
\<close>

theorem unparsable_line_id_fails_conversion:
  assumes "line \<in> set (findall doc [Desc ''cac:InvoiceLine''])" and "line_id_value line = None"
  shows "convert_xml_to_x12_content now (WellFormed doc) = None"
proof -
  have "hash_total (findall doc [Desc ''cac:InvoiceLine'']) = None"
    using assms by (rule hash_total_None)
  then have c: "ctt_segment (findall doc [Desc ''cac:InvoiceLine'']) = None"
    by (simp add: ctt_segment_def)
  have "x12_segments now doc = None"
  proof (rule ccontr)
    assume "x12_segments now doc \<noteq> None"
    then obtain segs where "x12_segments now doc = Some segs" by auto
    from x12_segments_shape[OF this] c show False by (metis option.distinct(1))
  qed
  then show ?thesis by (simp add: convert_xml_to_x12_content_def)
qed

theorem unparsable_line_id_witness:
  "invoice_line ''A1'' \<in> set (findall lettered_line_invoice [Desc ''cac:InvoiceLine'']) \<and>
   line_id_value (invoice_line ''A1'') = None \<and>
   convert_xml_to_x12_content sample_time (WellFormed lettered_line_invoice) = None \<and>
   unnumbered_line \<in> set (findall unnumbered_line_invoice [Desc ''cac:InvoiceLine'']) \<and>
   find_elem unnumbered_line [Child ''cbc:ID''] = None \<and>
   convert_xml_to_x12_content sample_time (WellFormed unnumbered_line_invoice) = None"
proof -
  have a: "invoice_line ''A1'' \<in> set (findall lettered_line_invoice [Desc ''cac:InvoiceLine''])"
    by code_simp
  have b: "line_id_value (invoice_line ''A1'') = None" by code_simp
  have c: "unnumbered_line \<in> set (findall unnumbered_line_invoice [Desc ''cac:InvoiceLine''])"
    by code_simp
  have d: "find_elem unnumbered_line [Child ''cbc:ID''] = None" by code_simp
  then have e: "line_id_value unnumbered_line = None" by (simp add: line_id_value_def)
  show ?thesis
    using a b c d unparsable_line_id_fails_conversion[OF a b, of sample_time]
      unparsable_line_id_fails_conversion[OF c e, of sample_time] by simp
qed

text \<open>
  C6, as amended. The assembled ISA segment always ends with \<open>*>~\<close>: its last element is
  the single character \<open>>\<close> followed by the terminator, with no padding after assembly.
  When neither the qualifiers and ids of the two parties nor the interchange control number
  contain the separator \<open>*\<close>, the segment splits on \<open>*\<close> into exactly 17 elements, the
  first \<open>ISA\<close> and the last \<open>>~\<close>.
\<close>

theorem isa_segment_17_elements:
  "(\<exists>u. create_ISA_segment supplier customer control t = u @ ''*>~'') \<and>
   (CHR ''*'' \<notin> set (party_qualifier supplier) \<and> CHR ''*'' \<notin> set (party_id supplier) \<and>
    CHR ''*'' \<notin> set (party_qualifier customer) \<and> CHR ''*'' \<notin> set (party_id customer) \<and>
    CHR ''*'' \<notin> set (interchange_control control) \<longrightarrow>
    length (split_on CHR ''*'' (create_ISA_segment supplier customer control t)) = 17 \<and>
    split_on CHR ''*'' (create_ISA_segment supplier customer control t) ! 0 = ''ISA'' \<and>
    split_on CHR ''*'' (create_ISA_segment supplier customer control t) ! 16 = ''>~'')"
proof -
  let ?els = "isa_elements supplier customer control t"
  let ?els' = "butlast ?els @ [last ?els @ ''~'']"
  have ne: "?els \<noteq> []" by (simp add: isa_elements_def)
  have eq: "create_ISA_segment supplier customer control t = join ''*'' ?els'"
    unfolding create_ISA_segment_def using join_snoc[OF ne] by simp
  have ends: "\<exists>u. create_ISA_segment supplier customer control t = u @ ''*>~''"
    unfolding create_ISA_segment_def isa_elements_def by simp
  have split: "length (split_on CHR ''*'' (create_ISA_segment supplier customer control t)) = 17 \<and>
      split_on CHR ''*'' (create_ISA_segment supplier customer control t) ! 0 = ''ISA'' \<and>
      split_on CHR ''*'' (create_ISA_segment supplier customer control t) ! 16 = ''>~''"
    if a: "CHR ''*'' \<notin> set (party_qualifier supplier)" "CHR ''*'' \<notin> set (party_id supplier)"
      "CHR ''*'' \<notin> set (party_qualifier customer)" "CHR ''*'' \<notin> set (party_id customer)"
      "CHR ''*'' \<notin> set (interchange_control control)"
  proof -
    have "\<forall>x\<in>set ?els'. CHR ''*'' \<notin> set x"
      using a
      by (simp add: isa_elements_def ljust_no_star zfill_no_star pad2_no_star strftime_y2md_def
          strftime_HM_def)
    then have "split_on CHR ''*'' (join ''*'' ?els') = ?els'"
      using split_on_join[of ?els' "CHR ''*''"] by simp
    then have "split_on CHR ''*'' (create_ISA_segment supplier customer control t) = ?els'"
      using eq by simp
    then show ?thesis by (simp add: isa_elements_def)
  qed
  show ?thesis using ends split by blast
qed

theorem isa_segment_witness:
  "CHR ''*'' \<notin> set (party_qualifier plain_party) \<and> CHR ''*'' \<notin> set (party_id plain_party) \<and>
   CHR ''*'' \<notin> set (interchange_control zero_control) \<and>
   length (split_on CHR ''*'' (create_ISA_segment plain_party plain_party zero_control sample_time)) = 17 \<and>
   split_on CHR ''*'' (create_ISA_segment plain_party plain_party zero_control sample_time) ! 16 = ''>~''"
proof -
  have h: "CHR ''*'' \<notin> set (party_qualifier plain_party) \<and> CHR ''*'' \<notin> set (party_id plain_party) \<and>
           CHR ''*'' \<notin> set (interchange_control zero_control)"
    by code_simp
  show ?thesis
    using h isa_segment_17_elements[of plain_party plain_party zero_control sample_time] by blast
qed

theorem isa_segment_star_counterexample:
  "party_id starred_party = take 15 (ljust 15 ''A*B'') \<and>
   length (split_on CHR ''*'' (create_ISA_segment starred_party plain_party zero_control sample_time)) = 18"
  by code_simp

text \<open>
  C8, as amended. Take the first BIG segment, \<open>BIG*d*rest\<close>, where \<open>d\<close> is the date
  field (BIG's first data element). When \<open>d\<close> is not exactly 8 characters long the
  segment is reported invalid, with the message that the date must be 8 characters. When
  \<open>d\<close> is 8 numeric digits, the date check passes exactly when the month digits are
  within 01..12 and the day digits within 01..31, whatever the year and the length of the
  month (so that 31 February is accepted), and the segment is then valid exactly when, in
  addition, the invoice number (BIG's second data element) is not empty.
\<close>

theorem big_date_month_and_day_ranges:
  assumes "first_segment ''BIG'' segments = Some (''BIG*'' @ d @ ''*'' @ rest)"
    and "CHR ''*'' \<notin> set d"
  shows "(length d \<noteq> 8 \<longrightarrow>
            ''BIG02: Invoice date must be 8 characters (YYYYMMDD)'' \<in> set (errors (validate_big segments)) \<and>
            \<not> valid (validate_big segments)) \<and>
         (length d = 8 \<and> (\<forall>c\<in>set d. is_digit c) \<longrightarrow>
            (big_date_errors d = [] \<longleftrightarrow>
               1 \<le> int_of_digits (take 2 (drop 4 d)) \<and> int_of_digits (take 2 (drop 4 d)) \<le> 12 \<and>
               1 \<le> int_of_digits (take 2 (drop 6 d)) \<and> int_of_digits (take 2 (drop 6 d)) \<le> 31) \<and>
            (valid (validate_big segments) \<longleftrightarrow>
               1 \<le> int_of_digits (take 2 (drop 4 d)) \<and> int_of_digits (take 2 (drop 4 d)) \<le> 12 \<and>
               1 \<le> int_of_digits (take 2 (drop 6 d)) \<and> int_of_digits (take 2 (drop 6 d)) \<le> 31 \<and>
               takeWhile (\<lambda>c. c \<noteq> CHR ''*'') rest \<noteq> []))"
proof -
  obtain ps where ps: "split_on CHR ''*'' rest = takeWhile (\<lambda>c. c \<noteq> CHR ''*'') rest # ps"
    using split_on_hd by blast
  have "split_on CHR ''*'' (''BIG'' @ CHR ''*'' # d @ CHR ''*'' # rest) =
          ''BIG'' # d # split_on CHR ''*'' rest"
    using assms(2) by (subst split_on_append_sep, simp, subst split_on_append_sep, simp, simp)
  then have sp: "split_on CHR ''*'' (''BIG*'' @ d @ ''*'' @ rest) =
          [''BIG'', d, takeWhile (\<lambda>c. c \<noteq> CHR ''*'') rest] @ ps"
    using ps by simp
  have v: "validate_big segments =
             checked (big_date_errors d @
               (if takeWhile (\<lambda>c. c \<noteq> CHR ''*'') rest = []
                then [''BIG03: Invoice number cannot be empty''] else []))"
    unfolding validate_big_def assms(1) option.case Let_def sp by simp
  have short: "''BIG02: Invoice date must be 8 characters (YYYYMMDD)'' \<in> set (errors (validate_big segments)) \<and>
            \<not> valid (validate_big segments)" if "length d \<noteq> 8"
    unfolding v using that by (simp add: checked_def big_date_errors_def)
  have digits: "(big_date_errors d = [] \<longleftrightarrow>
               1 \<le> int_of_digits (take 2 (drop 4 d)) \<and> int_of_digits (take 2 (drop 4 d)) \<le> 12 \<and>
               1 \<le> int_of_digits (take 2 (drop 6 d)) \<and> int_of_digits (take 2 (drop 6 d)) \<le> 31) \<and>
            (valid (validate_big segments) \<longleftrightarrow>
               1 \<le> int_of_digits (take 2 (drop 4 d)) \<and> int_of_digits (take 2 (drop 4 d)) \<le> 12 \<and>
               1 \<le> int_of_digits (take 2 (drop 6 d)) \<and> int_of_digits (take 2 (drop 6 d)) \<le> 31 \<and>
               takeWhile (\<lambda>c. c \<noteq> CHR ''*'') rest \<noteq> [])"
    if len: "length d = 8" and dig: "\<forall>c\<in>set d. is_digit c"
  proof -
    have y: "py_int (take 4 d) = Some (int_of_digits (take 4 d))"
      using py_int_slice[OF dig len, of 4 0] by simp
    have m: "py_int (take 2 (drop 4 d)) = Some (int_of_digits (take 2 (drop 4 d)))"
      using py_int_slice[OF dig len, of 2 4] by simp
    have dd: "py_int (take 2 (drop 6 d)) = Some (int_of_digits (take 2 (drop 6 d)))"
      using py_int_slice[OF dig len, of 2 6] by simp
    have "d \<noteq> []" using len by auto
    then have date: "big_date_errors d = [] \<longleftrightarrow>
             1 \<le> int_of_digits (take 2 (drop 4 d)) \<and> int_of_digits (take 2 (drop 4 d)) \<le> 12 \<and>
             1 \<le> int_of_digits (take 2 (drop 6 d)) \<and> int_of_digits (take 2 (drop 6 d)) \<le> 31"
      unfolding big_date_errors_def y m dd using len by simp
    have "valid (validate_big segments) \<longleftrightarrow>
            big_date_errors d = [] \<and> takeWhile (\<lambda>c. c \<noteq> CHR ''*'') rest \<noteq> []"
      unfolding v by (simp add: checked_def)
    then show ?thesis using date by blast
  qed
  show ?thesis using short digits by blast
qed

theorem big_date_witness:
  "first_segment ''BIG'' (edi_segments sample_edi) = Some (''BIG*'' @ ''20240315'' @ ''*'' @ ''INV001'') \<and>
   valid (validate_big (edi_segments sample_edi)) \<and>
   first_segment ''BIG'' [''BIG*2024*INV001''] = Some (''BIG*'' @ ''2024'' @ ''*'' @ ''INV001'') \<and>
   \<not> valid (validate_big [''BIG*2024*INV001''])"
proof -
  have h: "first_segment ''BIG'' (edi_segments sample_edi) =
             Some (''BIG*'' @ ''20240315'' @ ''*'' @ ''INV001'')"
    by code_simp
  have s: "CHR ''*'' \<notin> set ''20240315''" by simp
  have d: "\<forall>c\<in>set ''20240315''. is_digit c" by code_simp
  have m1: "1 \<le> int_of_digits (take 2 (drop 4 ''20240315''))" by code_simp
  have m2: "int_of_digits (take 2 (drop 4 ''20240315'')) \<le> 12" by code_simp
  have d1: "1 \<le> int_of_digits (take 2 (drop 6 ''20240315''))" by code_simp
  have d2: "int_of_digits (take 2 (drop 6 ''20240315'')) \<le> 31" by code_simp
  have n: "takeWhile (\<lambda>c. c \<noteq> CHR ''*'') ''INV001'' \<noteq> []" by simp
  have l: "length ''20240315'' = 8" by simp
  have a: "valid (validate_big (edi_segments sample_edi))"
    using big_date_month_and_day_ranges[OF h s] l d m1 m2 d1 d2 n by blast
  have h': "first_segment ''BIG'' [''BIG*2024*INV001''] = Some (''BIG*'' @ ''2024'' @ ''*'' @ ''INV001'')"
    by code_simp
  have s': "CHR ''*'' \<notin> set ''2024''" by simp
  have l': "length ''2024'' \<noteq> 8" by simp
  have b: "\<not> valid (validate_big [''BIG*2024*INV001''])"
    using big_date_month_and_day_ranges[OF h' s'] l' by blast
  show ?thesis using h a h' b by blast
qed

theorem big_date_february_31_counterexample:
  "valid (validate_big (edi_segments ''BIG*20230231*INV001~'')) \<and> days_in_month 2023 2 < 31 \<and>
   strptime_Ymd ''2023-02-31'' = None"
  by code_simp


text \<open>
  C1. The claim is that converting a complete invoice and validating the result gives
  \<open>ok = true\<close>. The code does the opposite on every input: the encoder writes the supplier
  as \<open>N1*SU*...\<close>, and the validator accepts only the entity codes \<open>BY\<close> and \<open>SE\<close>, so
  that whatever the encoder produces fails the N1 check and the validation as a whole.
\<close>

theorem encoder_output_never_passes_validation:
  assumes "convert_xml_to_x12_content now (WellFormed doc) = Some edi"
  shows "fst (validate_edi_format (EdiText edi)) = False \<and> \<not> valid (validate_n1 (edi_segments edi))"
  using assms by (rule converted_text_fails_n1)

theorem encoder_output_witness:
  "convert_xml_to_x12_content sample_time (WellFormed sample_invoice) = Some sample_edi \<and>
   fst (validate_edi_format (EdiText sample_edi)) = False"
proof -
  have h: "convert_xml_to_x12_content sample_time (WellFormed sample_invoice) = Some sample_edi"
    by (simp add: convert_xml_to_x12_content_def sample_conversion sample_edi_def)
  show ?thesis using h encoder_output_never_passes_validation[OF h] by blast
qed



text \<open>
  C3. The claim is that an invoice id with text gives its first 9 characters, zero-padded,
  as interchange control number (and likewise for the two other numbers). The class tests
  the truth value of the element, which is false for an element without children: for
  such an element, which is what an id with text is, the control number is all zeros
  whatever the text.
\<close>

theorem control_numbers_of_childless_elements:
  assumes "X12ControlNumbers doc = Some control"
  shows "(\<forall>e. find_elem doc [Desc ''cbc:ID''] = Some e \<and> children e = [] \<longrightarrow>
            interchange_control control = ''000000000'') \<and>
         (\<forall>e. find_elem doc [Desc ''cac:OrderReference'', Child ''cbc:ID''] = Some e \<and> children e = [] \<longrightarrow>
            group_control control = ''000000'') \<and>
         (\<forall>e. find_elem doc [Desc ''cac:OriginatorDocumentReference'', Child ''cbc:ID''] = Some e \<and>
              children e = [] \<longrightarrow> transaction_control control = ''0000'')"
  using assms unfolding X12ControlNumbers_def control_field_def elem_truthy_def
  by (auto simp: bind_eq_Some_conv zfill_def)

theorem control_numbers_witness:
  "X12ControlNumbers sample_invoice = Some zero_control \<and>
   find_elem sample_invoice [Desc ''cbc:ID''] = Some (leaf ''cbc:ID'' ''INV001'') \<and>
   etext (leaf ''cbc:ID'' ''INV001'') = Some ''INV001'' \<and>
   interchange_control zero_control = ''000000000''"
proof -
  have h: "X12ControlNumbers sample_invoice = Some zero_control" by code_simp
  have f: "find_elem sample_invoice [Desc ''cbc:ID''] = Some (leaf ''cbc:ID'' ''INV001'')"
    by code_simp
  have c: "children (leaf ''cbc:ID'' ''INV001'') = []" "etext (leaf ''cbc:ID'' ''INV001'') = Some ''INV001''"
    by (simp_all add: leaf_def)
  have "interchange_control zero_control = ''000000000''"
    using control_numbers_of_childless_elements[OF h] f c by blast
  with h f c show ?thesis by blast
qed




text \<open>
  C9. In every run, each of the two advisors is called at most once and each validator is
  run again at most once; an advisor is called only right after its own stage failed, and a
  second validation only right after the advisor's call. When a stage has failed and no
  second validation succeeded, the run ends there (the database permitting): the failure
  record of that stage is its last event and its outcome.
\<close>

theorem correction_at_most_once_per_stage:
  assumes "process_invoice_internal w strict = (tr, out)"
  shows "count_list tr XmlAdvisorCalled \<le> 1 \<and> count_list tr EdiAdvisorCalled \<le> 1 \<and>
     length (filter is_xml_revalidation tr) \<le> 1 \<and> length (filter is_edi_revalidation tr) \<le> 1 \<and>
     (XmlAdvisorCalled \<in> set tr \<longrightarrow> sublist [XmlValidated False, XmlAdvisorCalled] tr) \<and>
     (EdiAdvisorCalled \<in> set tr \<longrightarrow> sublist [EdiValidated False, EdiAdvisorCalled] tr) \<and>
     (\<forall>b. XmlRevalidated b \<in> set tr \<longrightarrow> sublist [XmlAdvisorCalled, XmlRevalidated b] tr) \<and>
     (\<forall>b. EdiRevalidated b \<in> set tr \<longrightarrow> sublist [EdiAdvisorCalled, EdiRevalidated b] tr) \<and>
     (XmlValidated False \<in> set tr \<and> XmlRevalidated True \<notin> set tr \<and> db_ok w \<longrightarrow>
        out = Failed XmlValidation \<and> last tr = FailureSaved XmlValidation) \<and>
     (EdiValidated False \<in> set tr \<and> EdiRevalidated True \<notin> set tr \<and> db_ok w \<longrightarrow>
        out = Failed EdiFormatValidation \<and> last tr = FailureSaved EdiFormatValidation)"
  (is "?P tr out")
proof -
  note simps = one_shot_simps sublist_Cons_right
  from process_shapes[OF assms] consider
      (a) "tr = []"
    | (b) "db_ok w" "out = Failed XmlValidation" "tr = [XmlValidated False, FailureSaved XmlValidation]"
    | (c) "db_ok w" "out = Failed XmlValidation"
          "tr = [XmlValidated False, XmlAdvisorCalled, FailureSaved XmlValidation]"
    | (d) "db_ok w" "out = Failed XmlValidation"
          "tr = [XmlValidated False, XmlAdvisorCalled, XmlRevalidated False, FailureSaved XmlValidation]"
    | (e) "\<not> db_ok w" "tr = [XmlValidated False]"
    | (f) "\<not> db_ok w" "tr = [XmlValidated False, XmlAdvisorCalled]"
    | (g) "\<not> db_ok w" "tr = [XmlValidated False, XmlAdvisorCalled, XmlRevalidated False]"
    | (h) "tr = [XmlValidated False, XmlAdvisorCalled, XmlRevalidated True]"
    | (i) "tr = [XmlValidated True, Converted False]"
    | (j) edi where "edi_stage w [XmlValidated True, Converted True] edi = (tr, out)"
    by blast
  then show ?thesis
  proof cases
    case a then show ?thesis by (simp add: simps)
  next
    case b then show ?thesis by (simp add: simps)
  next
    case c then show ?thesis by (simp add: simps)
  next
    case d then show ?thesis by (simp add: simps)
  next
    case e then show ?thesis by (simp add: simps)
  next
    case f then show ?thesis by (simp add: simps)
  next
    case g then show ?thesis by (simp add: simps)
  next
    case h then show ?thesis by (simp add: simps)
  next
    case i then show ?thesis by (simp add: simps)
  next
    case j
    from edi_stage_shapes[OF j] consider
        (a) "db_ok w" "out = Succeeded" "tr = [XmlValidated True, Converted True, EdiValidated True, SuccessSaved]"
      | (b) "db_ok w" "out = Failed EdiFormatValidation"
            "tr = [XmlValidated True, Converted True, EdiValidated False, FailureSaved EdiFormatValidation]"
      | (c) "db_ok w" "out = Failed EdiFormatValidation"
            "tr = [XmlValidated True, Converted True, EdiValidated False, EdiAdvisorCalled,
                   FailureSaved EdiFormatValidation]"
      | (d) "db_ok w" "out = Failed EdiFormatValidation"
            "tr = [XmlValidated True, Converted True, EdiValidated False, EdiAdvisorCalled,
                   EdiRevalidated False, FailureSaved EdiFormatValidation]"
      | (e) "db_ok w" "out = Succeeded"
            "tr = [XmlValidated True, Converted True, EdiValidated False, EdiAdvisorCalled,
                   EdiRevalidated True, SuccessSaved]"
      | (f) "\<not> db_ok w" "tr = [XmlValidated True, Converted True, EdiValidated True]"
      | (g) "\<not> db_ok w" "tr = [XmlValidated True, Converted True, EdiValidated False]"
      | (h) "\<not> db_ok w" "tr = [XmlValidated True, Converted True, EdiValidated False, EdiAdvisorCalled]"
      | (i) b where "\<not> db_ok w"
            "tr = [XmlValidated True, Converted True, EdiValidated False, EdiAdvisorCalled, EdiRevalidated b]"
      by auto
    then show ?thesis
    proof cases
      case a then show ?thesis by (simp add: simps)
    next
      case b then show ?thesis by (simp add: simps)
    next
      case c then show ?thesis by (simp add: simps)
    next
      case d then show ?thesis by (simp add: simps)
    next
      case e then show ?thesis by (simp add: simps)
    next
      case f then show ?thesis by (simp add: simps)
    next
      case g then show ?thesis by (simp add: simps)
    next
      case h then show ?thesis by (simp add: simps)
    next
      case i then show ?thesis by (simp add: simps)
    qed
  qed
qed


theorem correction_witness:
  "process_invoice_internal (silent_world empty_invoice) True =
     ([XmlValidated False, XmlAdvisorCalled, FailureSaved XmlValidation], Failed XmlValidation) \<and>
   process_invoice_internal (silent_world sample_invoice) False =
     ([XmlValidated True, Converted True, EdiValidated False, EdiAdvisorCalled,
       FailureSaved EdiFormatValidation], Failed EdiFormatValidation) \<and>
   count_list [XmlValidated True, Converted True, EdiValidated False, EdiAdvisorCalled,
       FailureSaved EdiFormatValidation] EdiAdvisorCalled \<le> 1"
proof -
  have x: "process_invoice_internal (silent_world empty_invoice) True =
     ([XmlValidated False, XmlAdvisorCalled, FailureSaved XmlValidation], Failed XmlValidation)"
    using empty_invoice_warnings
    by (simp add: process_invoice_internal_def silent_world_def validate_xml_def xml_correction_def
        auto_correct_xml_with_ai_def finish_def Let_def)
  have c: "convert_xml_to_x12 sample_time (ReadOk (WellFormed sample_invoice)) None =
             (True, ''X12 conversion completed successfully'', Some sample_edi)"
    by (simp add: convert_xml_to_x12_def convert_xml_to_x12_content_def sample_conversion
        sample_edi_def sample_x12_def)
  have "convert_xml_to_x12_content sample_time (WellFormed sample_invoice) = Some sample_edi"
    by (simp add: convert_xml_to_x12_content_def sample_conversion sample_edi_def)
  then have "fst (validate_edi_format (EdiText sample_edi)) = False"
    using converted_text_fails_n1 by blast
  then obtain m d where v: "validate_edi_format (EdiText sample_edi) = (False, m, d)"
    by (cases "validate_edi_format (EdiText sample_edi)") auto
  have e: "process_invoice_internal (silent_world sample_invoice) False =
     ([XmlValidated True, Converted True, EdiValidated False, EdiAdvisorCalled,
       FailureSaved EdiFormatValidation], Failed EdiFormatValidation)"
    by (simp add: process_invoice_internal_def silent_world_def validate_xml_def conversion_stage_def
        c edi_stage_def v edi_correction_def auto_fix_edi_with_ai_def finish_def Let_def)
  show ?thesis using x e correction_at_most_once_per_stage[OF e] by simp
qed


end
